theory Spec2Isabelle
  imports Complex_Main
begin

section \<open>Python arithmetic used by the server\<close>

text \<open>
  Python floats are idealised as exact reals throughout; Python's unbounded integers
  are \<^typ>\<open>int\<close>.  \<open>int(v)\<close> on a float truncates toward zero, and the built-in
  \<open>round(v)\<close> rounds to the nearest integer with ties going to the even neighbour.
\<close>

definition py_int :: "real \<Rightarrow> int" where
  "py_int v = (if 0 \<le> v then \<lfloor>v\<rfloor> else \<lceil>v\<rceil>)"

definition py_round :: "real \<Rightarrow> int" where
  "py_round v =
     (let f = \<lfloor>v\<rfloor>; d = v - real_of_int f
      in if d < 1 / 2 then f
         else if 1 / 2 < d then f + 1
         else if even f then f else f + 1)"

text \<open>\<open>math.sqrt((from_x - to_x) ** 2 + (from_y - to_y) ** 2)\<close>, defined identically in
  \<open>BaseAvatar\<close>, \<open>Island\<close> and \<open>PrintManager\<close>.\<close>

definition get_distance :: "real \<Rightarrow> real \<Rightarrow> real \<Rightarrow> real \<Rightarrow> real" where
  "get_distance from_x from_y to_x to_y = sqrt ((from_x - to_x)\<^sup>2 + (from_y - to_y)\<^sup>2)"

section \<open>services/compressor.py\<close>

definition precision :: real where
  "precision = 100"

definition compress :: "real \<Rightarrow> int" where
  "compress v = py_int (0.5 + v * precision)"

definition decompress :: "int \<Rightarrow> real" where
  "decompress v = real_of_int v / precision"

section \<open>collection.py\<close>

text \<open>
  A \<open>Collection\<close> keeps two parallel lists, \<open>ids\<close> and \<open>items\<close>, and every method
  updates both at the same index.  It is modelled by the list of items together with
  the function \<open>key\<close> that reads the id attribute, so that \<open>ids = map key items\<close>.
\<close>

definition Collection_exists :: "('a \<Rightarrow> 'k) \<Rightarrow> 'a list \<Rightarrow> 'a \<Rightarrow> bool" where
  "Collection_exists key items e = (key e \<in> set (map key items))"

definition Collection_add :: "('a \<Rightarrow> 'k) \<Rightarrow> 'a list \<Rightarrow> 'a \<Rightarrow> 'a list \<times> bool" where
  "Collection_add key items e =
     (if Collection_exists key items e then (items, False) else (items @ [e], True))"

text \<open>\<open>ids.index(element_id)\<close> followed by \<open>_delete_index\<close>: the first item with the id goes.\<close>

fun delete_first :: "('a \<Rightarrow> 'k) \<Rightarrow> 'k \<Rightarrow> 'a list \<Rightarrow> 'a list" where
  "delete_first key k [] = []"
| "delete_first key k (e # es) = (if key e = k then es else e # delete_first key k es)"

definition Collection_remove :: "('a \<Rightarrow> 'k) \<Rightarrow> 'a list \<Rightarrow> 'a \<Rightarrow> 'a list \<times> bool" where
  "Collection_remove key items e =
     (if Collection_exists key items e then (delete_first key (key e) items, True)
      else (items, False))"

definition Collection_count :: "'a list \<Rightarrow> int" where
  "Collection_count items = int (length items)"

text \<open>The constructor adds \<open>reversed(items)\<close> one by one, dropping repeated ids.\<close>

definition Collection_init :: "('a \<Rightarrow> 'k) \<Rightarrow> 'a list \<Rightarrow> 'a list" where
  "Collection_init key elements = fold (\<lambda>e acc. fst (Collection_add key acc e)) (rev elements) []"

definition Collection_filter :: "('a \<Rightarrow> 'k) \<Rightarrow> ('a \<Rightarrow> bool) \<Rightarrow> 'a list \<Rightarrow> 'a list" where
  "Collection_filter key callable items = Collection_init key (filter callable (rev items))"

definition Collection_get_by_id :: "('a \<Rightarrow> 'k) \<Rightarrow> 'a list \<Rightarrow> 'k \<Rightarrow> 'a option" where
  "Collection_get_by_id key items id_value = find (\<lambda>e. key e = id_value) items"

section \<open>core/body.py and core/avatar_body.py\<close>

text \<open>
  A body's \<open>data\<close> is a reference to the object it stands for: nothing for a probe body,
  a bonus (known by the id the bonus manager gave it) or, for an \<open>AvatarBody\<close>, the
  owning avatar.  Through an avatar reference the collision code reads only \<open>id\<close> and
  \<open>trail_latency\<close>, which are assigned once in \<open>BaseAvatar.__init__\<close>, so the reference is
  modelled by these two values.  Only \<open>AvatarBody\<close> is ever given an avatar as data, so
  \<open>isinstance(body, AvatarBody)\<close> is read off the data.  Island ids, the strings
  \<open>"x:y"\<close>, are pairs of integers.  The birth time of an \<open>AvatarBody\<close> only feeds the
  \<open>old\<close> flag of the \<open>die\<close> message and is left out.
\<close>

datatype body_data = NoData | BonusData "nat option" | AvatarData nat int

record body =
  b_x :: real
  b_y :: real
  b_radius :: real
  b_data :: body_data
  b_islands :: "(int \<times> int) list"
  b_id :: "nat option"
  b_num :: int

definition Body_init :: "real \<Rightarrow> real \<Rightarrow> real \<Rightarrow> body_data \<Rightarrow> body" where
  "Body_init x y r data =
     \<lparr>b_x = x, b_y = y, b_radius = r, b_data = data, b_islands = [], b_id = None, b_num = 0\<rparr>"

definition is_AvatarBody :: "body \<Rightarrow> bool" where
  "is_AvatarBody b = (case b_data b of AvatarData _ _ \<Rightarrow> True | _ \<Rightarrow> False)"

text \<open>\<open>BaseAvatar.equal\<close> compares ids.\<close>

fun data_equal :: "body_data \<Rightarrow> body_data \<Rightarrow> bool" where
  "data_equal (AvatarData i _) (AvatarData j _) = (i = j)"
| "data_equal _ _ = False"

fun data_trail_latency :: "body_data \<Rightarrow> int" where
  "data_trail_latency (AvatarData _ l) = l"
| "data_trail_latency _ = 3"

definition Body_match :: "body \<Rightarrow> body \<Rightarrow> bool" where
  "Body_match self other = True"

definition AvatarBody_match :: "body \<Rightarrow> body \<Rightarrow> bool" where
  "AvatarBody_match self other =
     (if is_AvatarBody other \<and> data_equal (b_data self) (b_data other)
      then data_trail_latency (b_data self) < b_num other - b_num self
      else True)"

text \<open>The method call \<open>body_a.match(body_b)\<close>, dispatched on the class of \<open>body_a\<close>.\<close>

definition match :: "body \<Rightarrow> body \<Rightarrow> bool" where
  "match self other = (if is_AvatarBody self then AvatarBody_match self other else Body_match self other)"

section \<open>models/base_bonus.py and models/bonus/*.py\<close>

text \<open>Values of the dynamically typed bonus effects and avatar attributes.\<close>

datatype py_value = VInt int | VFloat real | VBool bool | VStr string

fun as_int :: "py_value \<Rightarrow> int option" where
  "as_int (VInt i) = Some i"
| "as_int (VBool b) = Some (if b then 1 else 0)"
| "as_int _ = None"

fun as_float :: "py_value \<Rightarrow> real option" where
  "as_float (VFloat r) = Some r"
| "as_float (VInt i) = Some (real_of_int i)"
| "as_float (VBool b) = Some (if b then 1 else 0)"
| "as_float (VStr _) = None"

text \<open>\<open>a + b\<close>: strings concatenate, numbers add (a float operand makes the sum a float),
  and a string with a number raises \<open>TypeError\<close>, which is \<open>None\<close> here.\<close>

fun py_add :: "py_value \<Rightarrow> py_value \<Rightarrow> py_value option" where
  "py_add (VStr s) (VStr t) = Some (VStr (s @ t))"
| "py_add (VStr s) _ = None"
| "py_add _ (VStr t) = None"
| "py_add (VFloat x) b = map_option (\<lambda>y. VFloat (x + y)) (as_float b)"
| "py_add a (VFloat y) = map_option (\<lambda>x. VFloat (x + y)) (as_float a)"
| "py_add a b = (case (as_int a, as_int b) of (Some i, Some j) \<Rightarrow> Some (VInt (i + j)) | _ \<Rightarrow> None)"

text \<open>\<open>bool(v)\<close>.\<close>

fun py_bool :: "py_value \<Rightarrow> bool" where
  "py_bool (VInt i) = (i \<noteq> 0)"
| "py_bool (VFloat r) = (r \<noteq> 0)"
| "py_bool (VBool b) = b"
| "py_bool (VStr s) = (s \<noteq> [])"

datatype bonus_class =
    BonusSelfSmall | BonusSelfSlow | BonusSelfFast | BonusSelfMaster
  | BonusEnemySlow | BonusEnemyFast | BonusEnemyBig | BonusEnemyInverse
  | BonusEnemyStraightAngle
  | BonusGameBorderless | BonusGameClear
  | BonusAllColor

text \<open>The target chosen by \<open>get_target\<close>: nothing, the picking avatar, a list of avatars,
  or the game.  Avatars are referred to by their position in \<open>game.avatars.items\<close>, which
  is never reordered nor shortened while a game runs.\<close>

datatype bonus_target = NoTarget | AvatarTarget nat | AvatarsTarget "nat list" | GameTarget

record bonus =
  bonus_class :: bonus_class
  bonus_x :: real
  bonus_y :: real
  bonus_id :: "nat option"
  bonus_color :: string
  bonus_body :: body
  target :: bonus_target
  timeout_handle :: bool

definition DEFAULT_VELOCITY :: real where "DEFAULT_VELOCITY = 16"
definition DEFAULT_ANGULAR_VELOCITY_BASE :: real where "DEFAULT_ANGULAR_VELOCITY_BASE = 2.8 / 1000"
definition DEFAULT_RADIUS :: real where "DEFAULT_RADIUS = 0.6"
definition DEFAULT_TRAIL_LATENCY :: int where "DEFAULT_TRAIL_LATENCY = 3"
definition DEFAULT_INVERSE :: bool where "DEFAULT_INVERSE = False"
definition DEFAULT_INVINCIBLE :: bool where "DEFAULT_INVINCIBLE = False"
definition DEFAULT_DIRECTION_IN_LOOP :: bool where "DEFAULT_DIRECTION_IN_LOOP = True"

text \<open>Class attributes of the bonuses.\<close>

definition Bonus_radius :: real where "Bonus_radius = 3"

fun duration :: "bonus_class \<Rightarrow> real" where
  "duration BonusSelfSmall = 7500"
| "duration BonusSelfSlow = 4000"
| "duration BonusSelfFast = 4000"
| "duration BonusSelfMaster = 2000"
| "duration BonusEnemySlow = 6000"
| "duration BonusEnemyFast = 6000"
| "duration BonusEnemyBig = 7500"
| "duration BonusEnemyInverse = 5000"
| "duration BonusEnemyStraightAngle = 5000"
| "duration BonusGameBorderless = 8000"
| "duration BonusGameClear = 0"
| "duration BonusAllColor = 8000"

fun probability :: "bonus_class \<Rightarrow> real" where
  "probability BonusSelfMaster = 0.1"
| "probability BonusAllColor = 0.3"
| "probability _ = 1"

definition BaseBonus_probability :: real where "BaseBonus_probability = 1"

text \<open>\<open>Bonus.__init__\<close>; the random colour of a \<open>BonusAllColor\<close> is an argument.\<close>

definition Bonus_init :: "bonus_class \<Rightarrow> string \<Rightarrow> real \<Rightarrow> real \<Rightarrow> bonus" where
  "Bonus_init cls col x y =
     \<lparr>bonus_class = cls, bonus_x = x, bonus_y = y, bonus_id = None, bonus_color = col,
      bonus_body = Body_init x y Bonus_radius (BonusData None),
      target = NoTarget, timeout_handle = False\<rparr>"

fun get_effects_of :: "bonus_class \<Rightarrow> string \<Rightarrow> (string \<times> py_value) list" where
  "get_effects_of BonusSelfSmall col = [(''radius'', VInt (- 1))]"
| "get_effects_of BonusSelfSlow col = [(''velocity'', VFloat (- 0.5 * DEFAULT_VELOCITY))]"
| "get_effects_of BonusSelfFast col = [(''velocity'', VFloat (0.5 * DEFAULT_VELOCITY))]"
| "get_effects_of BonusSelfMaster col = [(''invincible'', VInt 1)]"
| "get_effects_of BonusEnemySlow col = [(''velocity'', VFloat (- 0.75 * DEFAULT_VELOCITY))]"
| "get_effects_of BonusEnemyFast col = [(''velocity'', VFloat (0.75 * DEFAULT_VELOCITY))]"
| "get_effects_of BonusEnemyBig col = [(''radius'', VInt 1)]"
| "get_effects_of BonusEnemyInverse col = [(''inverse'', VInt 1)]"
| "get_effects_of BonusEnemyStraightAngle col =
     [(''directionInLoop'', VBool False), (''angularVelocityBase'', VFloat (pi / 2))]"
| "get_effects_of BonusGameBorderless col = [(''borderless'', VInt 1)]"
| "get_effects_of BonusGameClear col = []"
| "get_effects_of BonusAllColor col = [(''color'', VStr col)]"

definition get_effects :: "bonus \<Rightarrow> (string \<times> py_value) list" where
  "get_effects b = get_effects_of (bonus_class b) (bonus_color b)"

section \<open>models/base_trail.py, models/base_avatar.py, models/avatar.py, managers/print_manager.py\<close>

record trail =
  t_points :: "(real \<times> real) list"
  t_last_x :: "real option"
  t_last_y :: "real option"

record print_manager =
  pm_active :: bool
  pm_last_x :: real
  pm_last_y :: real
  pm_distance :: real

text \<open>
  An avatar as the server holds it (class \<open>Avatar\<close>, which extends \<open>BaseAvatar\<close>), with the
  objects it owns: its trail, its bonus stack (the collection \<open>bonus_stack.bonuses\<close>), its
  moving body and its print manager.  \<open>player_color\<close> is \<open>self.player.color\<close>; \<open>attrs\<close> holds
  the instance attributes that \<open>setattr\<close> creates under names the class does not define;
  \<open>point_events\<close> lists the \<open>point\<close> events emitted and not yet delivered to the game's
  listener \<open>Game._on_point\<close>.  Events that only feed the network layer are not modelled.
\<close>

record avatar =
  av_id :: nat
  player_color :: string
  color :: string
  av_x :: real
  av_y :: real
  angle :: real
  velocity_x :: real
  velocity_y :: real
  angular_velocity :: real
  alive :: bool
  printing :: bool
  score :: int
  round_score :: int
  ready :: bool
  present :: bool
  velocity :: real
  radius :: real
  angular_velocity_base :: real
  av_inverse :: bool
  invincible :: bool
  direction_in_loop :: bool
  trail_latency :: int
  trail :: trail
  bonus_stack :: "bonus list"
  attrs :: "(string \<times> py_value) list"
  body_count :: int
  body :: body
  print_manager :: print_manager
  point_events :: "(real \<times> real) list"

text \<open>\<open>AvatarBody.__init__\<close> numbers the body and advances the avatar's counter.\<close>

definition AvatarBody_init :: "real \<Rightarrow> real \<Rightarrow> avatar \<Rightarrow> body \<times> avatar" where
  "AvatarBody_init x y a =
     ((Body_init x y (radius a) (AvatarData (av_id a) (trail_latency a)))\<lparr>b_num := body_count a\<rparr>,
      a\<lparr>body_count := body_count a + 1\<rparr>)"

definition BaseTrail_add_point :: "real \<Rightarrow> real \<Rightarrow> trail \<Rightarrow> trail" where
  "BaseTrail_add_point x y t = t\<lparr>t_points := t_points t @ [(x, y)], t_last_x := Some x, t_last_y := Some y\<rparr>"

definition BaseTrail_clear :: "trail \<Rightarrow> trail" where
  "BaseTrail_clear t = t\<lparr>t_points := [], t_last_x := None, t_last_y := None\<rparr>"

definition BaseAvatar_set_position :: "real \<Rightarrow> real \<Rightarrow> avatar \<Rightarrow> avatar" where
  "BaseAvatar_set_position x y a = a\<lparr>av_x := x, av_y := y\<rparr>"

definition Avatar_set_position :: "real \<Rightarrow> real \<Rightarrow> avatar \<Rightarrow> avatar" where
  "Avatar_set_position x y a =
     (let a = BaseAvatar_set_position x y a
      in a\<lparr>body := (body a)\<lparr>b_x := av_x a, b_y := av_y a, b_num := body_count a\<rparr>\<rparr>)"

definition BaseAvatar_add_point :: "real \<Rightarrow> real \<Rightarrow> avatar \<Rightarrow> avatar" where
  "BaseAvatar_add_point x y a = a\<lparr>trail := BaseTrail_add_point x y (trail a)\<rparr>"

definition Avatar_add_point :: "real \<Rightarrow> real \<Rightarrow> avatar \<Rightarrow> avatar" where
  "Avatar_add_point x y a =
     (let a = BaseAvatar_add_point x y a in a\<lparr>point_events := point_events a @ [(x, y)]\<rparr>)"

definition BaseAvatar_set_angular_velocity :: "real \<Rightarrow> avatar \<Rightarrow> avatar" where
  "BaseAvatar_set_angular_velocity w a = a\<lparr>angular_velocity := w\<rparr>"

definition Avatar_set_angular_velocity :: "real \<Rightarrow> avatar \<Rightarrow> avatar" where
  "Avatar_set_angular_velocity w a =
     (if angular_velocity a \<noteq> w then BaseAvatar_set_angular_velocity w a else a)"

definition BaseAvatar_update_angular_velocity :: "real option \<Rightarrow> avatar \<Rightarrow> avatar" where
  "BaseAvatar_update_angular_velocity factor a =
     (let sign = (if av_inverse a then - 1 else 1)
      in case factor of
           None \<Rightarrow>
             if angular_velocity a = 0 then a
             else Avatar_set_angular_velocity
                    (((if 0 < angular_velocity a then 1 else - 1) * sign)
                       * angular_velocity_base a * sign) a
         | Some f \<Rightarrow> Avatar_set_angular_velocity (f * angular_velocity_base a * sign) a)"

text \<open>\<open>math.log(1 / ratio)\<close> is the real logarithm; the velocity is positive in every state
  the setters produce (\<open>set_velocity\<close> clamps it to at least half the default).\<close>

definition BaseAvatar_update_base_angular_velocity :: "avatar \<Rightarrow> avatar" where
  "BaseAvatar_update_base_angular_velocity a =
     (if direction_in_loop a
      then let ratio = velocity a / DEFAULT_VELOCITY;
               a = a\<lparr>angular_velocity_base :=
                      ratio * DEFAULT_ANGULAR_VELOCITY_BASE + ln (1 / ratio) / 1000\<rparr>
           in BaseAvatar_update_angular_velocity None a
      else a)"

definition BaseAvatar_update_velocities :: "avatar \<Rightarrow> avatar" where
  "BaseAvatar_update_velocities a =
     (let v = velocity a / 1000;
          a = a\<lparr>velocity_x := cos (angle a) * v, velocity_y := sin (angle a) * v\<rparr>
      in BaseAvatar_update_base_angular_velocity a)"

definition BaseAvatar_set_angle :: "real \<Rightarrow> avatar \<Rightarrow> avatar" where
  "BaseAvatar_set_angle ang a =
     (if angle a \<noteq> ang then BaseAvatar_update_velocities (a\<lparr>angle := ang\<rparr>) else a)"

definition Avatar_set_angle :: "real \<Rightarrow> avatar \<Rightarrow> avatar" where
  "Avatar_set_angle ang a = (if angle a \<noteq> ang then BaseAvatar_set_angle ang a else a)"

definition BaseAvatar_set_velocity :: "real \<Rightarrow> avatar \<Rightarrow> avatar" where
  "BaseAvatar_set_velocity v a =
     (let v = max v (DEFAULT_VELOCITY / 2)
      in if velocity a \<noteq> v then BaseAvatar_update_velocities (a\<lparr>velocity := v\<rparr>) else a)"

definition Avatar_set_velocity :: "real \<Rightarrow> avatar \<Rightarrow> avatar" where
  "Avatar_set_velocity v a = (if velocity a \<noteq> v then BaseAvatar_set_velocity v a else a)"

definition BaseAvatar_set_radius :: "real \<Rightarrow> avatar \<Rightarrow> avatar" where
  "BaseAvatar_set_radius r a = a\<lparr>radius := max r (DEFAULT_RADIUS / 8)\<rparr>"

definition Avatar_set_radius :: "real \<Rightarrow> avatar \<Rightarrow> avatar" where
  "Avatar_set_radius r a =
     (if radius a \<noteq> r
      then let a = BaseAvatar_set_radius r a in a\<lparr>body := (body a)\<lparr>b_radius := radius a\<rparr>\<rparr>
      else a)"

definition BaseAvatar_set_inverse :: "bool \<Rightarrow> avatar \<Rightarrow> avatar" where
  "BaseAvatar_set_inverse flag a =
     (if av_inverse a \<noteq> flag
      then BaseAvatar_update_angular_velocity None (a\<lparr>av_inverse := flag\<rparr>)
      else a)"

definition Avatar_set_inverse :: "bool \<Rightarrow> avatar \<Rightarrow> avatar" where
  "Avatar_set_inverse flag a = BaseAvatar_set_inverse flag a"

definition BaseAvatar_set_invincible :: "bool \<Rightarrow> avatar \<Rightarrow> avatar" where
  "BaseAvatar_set_invincible flag a = a\<lparr>invincible := flag\<rparr>"

definition Avatar_set_invincible :: "bool \<Rightarrow> avatar \<Rightarrow> avatar" where
  "Avatar_set_invincible flag a = BaseAvatar_set_invincible flag a"

definition Avatar_set_color :: "string \<Rightarrow> avatar \<Rightarrow> avatar" where
  "Avatar_set_color c a = a\<lparr>color := c\<rparr>"

definition BaseAvatar_update_angle :: "real \<Rightarrow> avatar \<Rightarrow> avatar" where
  "BaseAvatar_update_angle step a =
     (if angular_velocity a \<noteq> 0
      then if direction_in_loop a
           then Avatar_set_angle (angle a + angular_velocity a * step) a
           else BaseAvatar_update_angular_velocity (Some 0)
                  (Avatar_set_angle (angle a + angular_velocity a) a)
      else a)"

definition BaseAvatar_update_position :: "real \<Rightarrow> avatar \<Rightarrow> avatar" where
  "BaseAvatar_update_position step a =
     Avatar_set_position (av_x a + velocity_x a * step) (av_y a + velocity_y a * step) a"

definition Avatar_is_time_to_draw :: "avatar \<Rightarrow> bool" where
  "Avatar_is_time_to_draw a =
     (case (t_last_x (trail a), t_last_y (trail a)) of
        (Some lx, Some ly) \<Rightarrow> radius a < get_distance lx ly (av_x a) (av_y a)
      | _ \<Rightarrow> True)"

definition Avatar_update :: "real \<Rightarrow> avatar \<Rightarrow> avatar" where
  "Avatar_update step a =
     (if alive a
      then let a = BaseAvatar_update_angle step a;
               a = BaseAvatar_update_position step a
           in if printing a \<and> Avatar_is_time_to_draw a then Avatar_add_point (av_x a) (av_y a) a
              else a
      else a)"

definition BaseAvatar_set_printing :: "bool \<Rightarrow> avatar \<Rightarrow> avatar" where
  "BaseAvatar_set_printing p a =
     (if printing a \<noteq> p
      then let a = Avatar_add_point (av_x a) (av_y a) (a\<lparr>printing := p\<rparr>)
           in if \<not> printing a then a\<lparr>trail := BaseTrail_clear (trail a)\<rparr> else a
      else a)"

definition Avatar_set_printing :: "bool \<Rightarrow> avatar \<Rightarrow> avatar" where
  "Avatar_set_printing p a = BaseAvatar_set_printing p a"

text \<open>The print manager; \<open>u\<close> stands for the value \<open>random.random()\<close> returns when
  \<open>get_random_distance\<close> is reached.\<close>

definition hole_distance :: real where "hole_distance = 5"
definition print_distance :: real where "print_distance = 60"

definition PrintManager_get_random_distance :: "real \<Rightarrow> avatar \<Rightarrow> real" where
  "PrintManager_get_random_distance u a =
     (if printing a then print_distance * (0.3 + u * 0.7) else hole_distance * (0.8 + u * 0.5))"

definition PrintManager_set_printing :: "real \<Rightarrow> bool \<Rightarrow> avatar \<Rightarrow> avatar" where
  "PrintManager_set_printing u p a =
     (let a = Avatar_set_printing p a
      in a\<lparr>print_manager := (print_manager a)\<lparr>pm_distance := PrintManager_get_random_distance u a\<rparr>\<rparr>)"

definition PrintManager_toggle_printing :: "real \<Rightarrow> avatar \<Rightarrow> avatar" where
  "PrintManager_toggle_printing u a = PrintManager_set_printing u (\<not> printing a) a"

definition PrintManager_start :: "real \<Rightarrow> avatar \<Rightarrow> avatar" where
  "PrintManager_start u a =
     (if \<not> pm_active (print_manager a)
      then PrintManager_set_printing u True
             (a\<lparr>print_manager := (print_manager a)
                  \<lparr>pm_active := True, pm_last_x := av_x a, pm_last_y := av_y a\<rparr>\<rparr>)
      else a)"

definition PrintManager_clear :: "avatar \<Rightarrow> avatar" where
  "PrintManager_clear a =
     a\<lparr>print_manager := \<lparr>pm_active = False, pm_last_x = 0, pm_last_y = 0, pm_distance = 0\<rparr>\<rparr>"

definition PrintManager_stop :: "real \<Rightarrow> avatar \<Rightarrow> avatar" where
  "PrintManager_stop u a =
     (if pm_active (print_manager a)
      then PrintManager_clear
             (PrintManager_set_printing u False
                (a\<lparr>print_manager := (print_manager a)\<lparr>pm_active := False\<rparr>\<rparr>))
      else a)"

definition PrintManager_test :: "real \<Rightarrow> avatar \<Rightarrow> avatar" where
  "PrintManager_test u a =
     (if pm_active (print_manager a)
      then let pm = print_manager a;
               d = pm_distance pm - get_distance (pm_last_x pm) (pm_last_y pm) (av_x a) (av_y a);
               a = a\<lparr>print_manager := pm\<lparr>pm_distance := d, pm_last_x := av_x a, pm_last_y := av_y a\<rparr>\<rparr>
           in if d \<le> 0 then PrintManager_toggle_printing u a else a
      else a)"

definition BaseBonusStack_clear :: "avatar \<Rightarrow> avatar" where
  "BaseBonusStack_clear a = a\<lparr>bonus_stack := []\<rparr>"

definition BaseAvatar_die :: "avatar \<Rightarrow> avatar" where
  "BaseAvatar_die a =
     (let a = BaseBonusStack_clear a;
          a = a\<lparr>alive := False\<rparr>
      in Avatar_add_point (av_x a) (av_y a) a)"

definition Avatar_die :: "real \<Rightarrow> avatar \<Rightarrow> avatar" where
  "Avatar_die u a = PrintManager_stop u (BaseAvatar_die a)"

definition Avatar_set_round_score :: "int \<Rightarrow> avatar \<Rightarrow> avatar" where
  "Avatar_set_round_score s a = a\<lparr>round_score := s\<rparr>"

definition Avatar_set_score :: "int \<Rightarrow> avatar \<Rightarrow> avatar" where
  "Avatar_set_score s a = a\<lparr>score := s\<rparr>"

definition BaseAvatar_add_score :: "int \<Rightarrow> avatar \<Rightarrow> avatar" where
  "BaseAvatar_add_score s a = Avatar_set_round_score (round_score a + s) a"

definition BaseAvatar_resolve_score :: "avatar \<Rightarrow> avatar" where
  "BaseAvatar_resolve_score a = (Avatar_set_score (score a + round_score a) a)\<lparr>round_score := 0\<rparr>"

definition BaseAvatar_clear :: "avatar \<Rightarrow> avatar" where
  "BaseAvatar_clear a =
     (let a = BaseBonusStack_clear a
      in a\<lparr>av_x := radius a, av_y := radius a, angle := 0, velocity_x := 0, velocity_y := 0,
           angular_velocity := 0, round_score := 0, velocity := DEFAULT_VELOCITY,
           alive := True, printing := False, color := player_color a,
           radius := DEFAULT_RADIUS, av_inverse := DEFAULT_INVERSE,
           invincible := DEFAULT_INVINCIBLE, direction_in_loop := DEFAULT_DIRECTION_IN_LOOP,
           angular_velocity_base := DEFAULT_ANGULAR_VELOCITY_BASE\<rparr>)"

definition Avatar_clear :: "real \<Rightarrow> avatar \<Rightarrow> avatar" where
  "Avatar_clear u a = (PrintManager_stop u (BaseAvatar_clear a))\<lparr>body_count := 0\<rparr>"

definition BaseAvatar_destroy :: "real \<Rightarrow> avatar \<Rightarrow> avatar" where
  "BaseAvatar_destroy u a = (Avatar_clear u a)\<lparr>present := False, alive := False\<rparr>"

text \<open>\<open>BaseAvatar.__init__\<close> followed by \<open>Avatar.__init__\<close>, for a player with the given id
  and colour.\<close>

definition Avatar_init :: "nat \<Rightarrow> string \<Rightarrow> avatar" where
  "Avatar_init pid col =
     (let a = \<lparr>av_id = pid, player_color = col, color = col, av_x = 0, av_y = 0, angle = 0,
               velocity_x = 0, velocity_y = 0, angular_velocity = 0, alive = True,
               printing = False, score = 0, round_score = 0, ready = False, present = True,
               velocity = DEFAULT_VELOCITY, radius = DEFAULT_RADIUS,
               angular_velocity_base = DEFAULT_ANGULAR_VELOCITY_BASE,
               av_inverse = DEFAULT_INVERSE, invincible = DEFAULT_INVINCIBLE,
               direction_in_loop = DEFAULT_DIRECTION_IN_LOOP,
               trail_latency = DEFAULT_TRAIL_LATENCY,
               trail = \<lparr>t_points = [], t_last_x = None, t_last_y = None\<rparr>,
               bonus_stack = [], attrs = [], body_count = 0,
               body = Body_init 0 0 DEFAULT_RADIUS NoData,
               print_manager = \<lparr>pm_active = False, pm_last_x = 0, pm_last_y = 0, pm_distance = 0\<rparr>,
               point_events = []\<rparr>;
          (b, a) = AvatarBody_init (av_x a) (av_y a) a
      in a\<lparr>body := b\<rparr>)"

section \<open>models/base_bonus_stack.py and models/bonus_stack.py\<close>

text \<open>
  The \<open>properties\<close> dictionary of \<open>resolve\<close> is an association list in insertion order.
  A function of this section returns \<open>None\<close> where the Python raises \<open>TypeError\<close> or
  \<open>KeyError\<close>, or would store a value of a type the attribute never holds in this
  program (a string formatted by \<open>%\<close>, a colour that is not a string).
\<close>

fun dict_set :: "('k \<times> 'v) list \<Rightarrow> 'k \<Rightarrow> 'v \<Rightarrow> ('k \<times> 'v) list" where
  "dict_set [] k v = [(k, v)]"
| "dict_set ((k', v') # kvs) k v =
     (if k' = k then (k, v) # kvs else (k', v') # dict_set kvs k v)"

definition BaseBonusStack_append ::
  "(string \<times> py_value) list \<Rightarrow> string \<Rightarrow> py_value \<Rightarrow> (string \<times> py_value) list option" where
  "BaseBonusStack_append properties prop v =
     (case map_of properties prop of
        None \<Rightarrow> None
      | Some old \<Rightarrow> map_option (dict_set properties prop) (py_add old v))"

definition BonusStack_append ::
  "(string \<times> py_value) list \<Rightarrow> string \<Rightarrow> py_value \<Rightarrow> (string \<times> py_value) list option" where
  "BonusStack_append properties prop v =
     (if prop \<in> set [''directionInLoop'', ''angularVelocityBase'', ''color'']
      then Some (dict_set properties prop v)
      else BaseBonusStack_append properties prop v)"

definition BonusStack_get_default_property :: "avatar \<Rightarrow> string \<Rightarrow> py_value" where
  "BonusStack_get_default_property a prop =
     (if prop = ''printing'' then VInt 1
      else if prop = ''radius'' then VInt 0
      else if prop = ''color'' then VStr (player_color a)
      else if prop = ''velocity'' then VFloat DEFAULT_VELOCITY
      else if prop = ''inverse'' then VInt 0
      else if prop = ''invincible'' then VInt 0
      else VInt 0)"

text \<open>The three loops of \<open>BaseBonusStack.resolve\<close>, over the default and append methods
  of the subclass: the effects of the bonus being removed, the effects of one active
  bonus, and the active bonuses.\<close>

definition resolve_removed ::
  "(string \<Rightarrow> py_value) \<Rightarrow> (string \<times> py_value) list \<Rightarrow> (string \<times> py_value) list
   \<Rightarrow> (string \<times> py_value) list" where
  "resolve_removed dflt effects properties =
     fold (\<lambda>effect ps. dict_set ps (fst effect) (dflt (fst effect))) effects properties"

fun resolve_effects ::
  "(string \<Rightarrow> py_value)
   \<Rightarrow> ((string \<times> py_value) list \<Rightarrow> string \<Rightarrow> py_value \<Rightarrow> (string \<times> py_value) list option)
   \<Rightarrow> (string \<times> py_value) list \<Rightarrow> (string \<times> py_value) list
   \<Rightarrow> (string \<times> py_value) list option" where
  "resolve_effects dflt app [] properties = Some properties"
| "resolve_effects dflt app (effect # effects) properties =
     (let prop = fst effect; v = snd effect;
          properties = (if prop \<in> fst ` set properties then properties
                        else dict_set properties prop (dflt prop))
      in case app properties prop v of
           None \<Rightarrow> None
         | Some properties \<Rightarrow> resolve_effects dflt app effects properties)"

fun resolve_active ::
  "(string \<Rightarrow> py_value)
   \<Rightarrow> ((string \<times> py_value) list \<Rightarrow> string \<Rightarrow> py_value \<Rightarrow> (string \<times> py_value) list option)
   \<Rightarrow> bonus list \<Rightarrow> (string \<times> py_value) list
   \<Rightarrow> (string \<times> py_value) list option" where
  "resolve_active dflt app [] properties = Some properties"
| "resolve_active dflt app (active_bonus # bonuses) properties =
     (case resolve_effects dflt app (get_effects active_bonus) properties of
        None \<Rightarrow> None
      | Some properties \<Rightarrow> resolve_active dflt app bonuses properties)"

definition resolve_properties ::
  "(string \<Rightarrow> py_value)
   \<Rightarrow> ((string \<times> py_value) list \<Rightarrow> string \<Rightarrow> py_value \<Rightarrow> (string \<times> py_value) list option)
   \<Rightarrow> bonus list \<Rightarrow> bonus option \<Rightarrow> (string \<times> py_value) list option" where
  "resolve_properties dflt app bonuses removed =
     resolve_active dflt app bonuses
       (case removed of None \<Rightarrow> [] | Some b \<Rightarrow> resolve_removed dflt (get_effects b) [])"

text \<open>The last loop of \<open>resolve\<close>: \<open>apply\<close> on every entry, in order.\<close>

fun apply_properties ::
  "(string \<Rightarrow> py_value \<Rightarrow> 't \<Rightarrow> 't option) \<Rightarrow> (string \<times> py_value) list \<Rightarrow> 't \<Rightarrow> 't option" where
  "apply_properties app [] tgt = Some tgt"
| "apply_properties app (pv # properties) tgt =
     (case app (fst pv) (snd pv) tgt of
        None \<Rightarrow> None
      | Some tgt \<Rightarrow> apply_properties app properties tgt)"

text \<open>\<open>2 ** v\<close> and \<open>v % 2 != 0\<close> on a Python value.\<close>

fun py_pow2 :: "py_value \<Rightarrow> real option" where
  "py_pow2 (VInt i) = Some (2 powi i)"
| "py_pow2 (VBool b) = Some (if b then 2 else 1)"
| "py_pow2 (VFloat r) = Some (2 powr r)"
| "py_pow2 (VStr s) = None"

fun py_odd :: "py_value \<Rightarrow> bool option" where
  "py_odd (VInt i) = Some (i mod 2 \<noteq> 0)"
| "py_odd (VBool b) = Some b"
| "py_odd (VFloat r) = Some (frac (r / 2) \<noteq> 0)"
| "py_odd (VStr s) = None"

text \<open>\<open>setattr(self.target, property, value)\<close>, reached only for names that are not
  attributes of the avatar class (\<open>directionInLoop\<close>, \<open>angularVelocityBase\<close>, \<open>borderless\<close>):
  it creates or overwrites an instance attribute of that name.\<close>

definition BaseBonusStack_apply :: "string \<Rightarrow> py_value \<Rightarrow> avatar \<Rightarrow> avatar" where
  "BaseBonusStack_apply prop v a = a\<lparr>attrs := dict_set (attrs a) prop v\<rparr>"

definition BonusStack_apply :: "real \<Rightarrow> string \<Rightarrow> py_value \<Rightarrow> avatar \<Rightarrow> avatar option" where
  "BonusStack_apply u prop v a =
     (if prop = ''radius''
        then map_option (\<lambda>p. Avatar_set_radius (DEFAULT_RADIUS * p) a) (py_pow2 v)
      else if prop = ''velocity''
        then map_option (\<lambda>r. Avatar_set_velocity r a) (as_float v)
      else if prop = ''inverse''
        then map_option (\<lambda>b. Avatar_set_inverse b a) (py_odd v)
      else if prop = ''invincible''
        then Some (Avatar_set_invincible (py_bool v) a)
      else if prop = ''printing''
        then map_option (\<lambda>r. if 0 < r then PrintManager_start u a else PrintManager_stop u a)
               (as_float v)
      else if prop = ''color''
        then (case v of VStr c \<Rightarrow> Some (Avatar_set_color c a) | _ \<Rightarrow> None)
      else Some (BaseBonusStack_apply prop v a))"

definition BonusStack_resolve :: "real \<Rightarrow> bonus option \<Rightarrow> avatar \<Rightarrow> avatar option" where
  "BonusStack_resolve u removed a =
     (case resolve_properties (BonusStack_get_default_property a) BonusStack_append
             (bonus_stack a) removed of
        None \<Rightarrow> None
      | Some properties \<Rightarrow> apply_properties (BonusStack_apply u) properties a)"

definition BonusStack_add :: "real \<Rightarrow> bonus \<Rightarrow> avatar \<Rightarrow> avatar option" where
  "BonusStack_add u b a =
     (case Collection_add bonus_id (bonus_stack a) b of
        (bonuses, True) \<Rightarrow> BonusStack_resolve u None (a\<lparr>bonus_stack := bonuses\<rparr>)
      | (bonuses, False) \<Rightarrow> Some a)"

definition BonusStack_remove :: "real \<Rightarrow> bonus \<Rightarrow> avatar \<Rightarrow> avatar option" where
  "BonusStack_remove u b a =
     (case Collection_remove bonus_id (bonus_stack a) b of
        (bonuses, True) \<Rightarrow> BonusStack_resolve u (Some b) (a\<lparr>bonus_stack := bonuses\<rparr>)
      | (bonuses, False) \<Rightarrow> Some a)"

section \<open>core/island.py and core/world.py\<close>

text \<open>
  The bodies an island holds are the objects added to it; the copy kept here is read for
  its position, radius, number, data and id.  The back-reference list \<open>body.islands\<close> is
  maintained on the body value that the caller threads through \<open>add_body\<close> and
  \<open>remove_body\<close>, and names the islands of the world the body was added to.
  A function returns \<open>None\<close> where the Python raises \<open>ZeroDivisionError\<close>.
\<close>

record island =
  i_id :: "int \<times> int"
  i_size :: real
  from_x :: real
  from_y :: real
  to_x :: real
  to_y :: real
  bodies :: "body list"

record world =
  w_size :: real
  islands :: "island list"
  island_size :: real
  active :: bool
  w_body_count :: nat

definition Island_init :: "int \<times> int \<Rightarrow> real \<Rightarrow> real \<Rightarrow> real \<Rightarrow> island" where
  "Island_init ident sz x y =
     \<lparr>i_id = ident, i_size = sz, from_x = x, from_y = y, to_x = x + sz, to_y = y + sz, bodies = []\<rparr>"

definition Island_add_body :: "island \<Rightarrow> body \<Rightarrow> island \<times> body" where
  "Island_add_body isle b =
     (case Collection_add b_id (bodies isle) b of
        (bs, True) \<Rightarrow>
          (isle\<lparr>bodies := bs\<rparr>, b\<lparr>b_islands := fst (Collection_add id (b_islands b) (i_id isle))\<rparr>)
      | (bs, False) \<Rightarrow> (isle, b))"

definition Island_remove_body :: "island \<Rightarrow> body \<Rightarrow> island \<times> body" where
  "Island_remove_body isle b =
     (isle\<lparr>bodies := fst (Collection_remove b_id (bodies isle) b)\<rparr>,
      b\<lparr>b_islands := fst (Collection_remove id (b_islands b) (i_id isle))\<rparr>)"

definition Island_body_in_bound :: "body \<Rightarrow> real \<Rightarrow> real \<Rightarrow> real \<Rightarrow> real \<Rightarrow> bool" where
  "Island_body_in_bound b fx fy tx ty =
     (fx < b_x b + b_radius b \<and> b_x b - b_radius b < tx
      \<and> fy < b_y b + b_radius b \<and> b_y b - b_radius b < ty)"

definition Island_bodies_touch :: "body \<Rightarrow> body \<Rightarrow> bool" where
  "Island_bodies_touch body_a body_b =
     (let distance = get_distance (b_x body_a) (b_y body_a) (b_x body_b) (b_y body_b);
          r = b_radius body_a + b_radius body_b;
          m = match body_a body_b
      in distance < r \<and> m)"

definition Island_get_body :: "island \<Rightarrow> body \<Rightarrow> body option" where
  "Island_get_body isle b =
     (if Island_body_in_bound b (from_x isle) (from_y isle) (to_x isle) (to_y isle)
      then find (\<lambda>other. Island_bodies_touch other b) (bodies isle)
      else None)"

definition Island_test_body :: "island \<Rightarrow> body \<Rightarrow> bool" where
  "Island_test_body isle b = (Island_get_body isle b = None)"

definition Island_clear :: "island \<Rightarrow> island" where
  "Island_clear isle = isle\<lparr>bodies := []\<rparr>"

definition island_grid_size :: real where "island_grid_size = 40"

text \<open>\<open>World.__init__\<close>: \<open>n\<close> islands a side, \<open>round(size / 40)\<close> when none is given, created
  for \<open>y\<close> and \<open>x\<close> running down from \<open>n - 1\<close> to \<open>0\<close>.\<close>

definition World_init :: "real \<Rightarrow> int option \<Rightarrow> world option" where
  "World_init sz isls =
     (let n = (case isls of None \<Rightarrow> py_round (sz / island_grid_size) | Some k \<Rightarrow> k)
      in if n = 0 then None
         else let isz = sz / real_of_int n;
                  down = rev (map int [0..<nat n])
              in Some \<lparr>w_size = sz,
                       islands = fold (\<lambda>isle acc. fst (Collection_add i_id acc isle))
                         (concat (map (\<lambda>y. map (\<lambda>x.
                            Island_init (x, y) isz (real_of_int x * isz) (real_of_int y * isz))
                            down) down)) [],
                       island_size = isz, active = False, w_body_count = 0\<rparr>)"

text \<open>\<open>ids.index(island_id)\<close>: the position of the first island with the id.\<close>

fun index_of :: "('a \<Rightarrow> 'k) \<Rightarrow> 'k \<Rightarrow> 'a list \<Rightarrow> nat option" where
  "index_of key k [] = None"
| "index_of key k (e # es) =
     (if key e = k then Some 0 else map_option Suc (index_of key k es))"

definition World_island_index :: "world \<Rightarrow> real \<Rightarrow> real \<Rightarrow> nat option option" where
  "World_island_index w px py =
     (if island_size w = 0 then None
      else Some (index_of i_id (py_int (px / island_size w), py_int (py / island_size w))
                   (islands w)))"

definition World_get_island_by_point :: "world \<Rightarrow> real \<Rightarrow> real \<Rightarrow> island option option" where
  "World_get_island_by_point w px py =
     map_option (map_option (\<lambda>k. islands w ! k)) (World_island_index w px py)"

definition World_add_body_by_point :: "world \<Rightarrow> body \<Rightarrow> real \<Rightarrow> real \<Rightarrow> (world \<times> body) option" where
  "World_add_body_by_point w b x y =
     (case World_island_index w x y of
        None \<Rightarrow> None
      | Some None \<Rightarrow> Some (w, b)
      | Some (Some k) \<Rightarrow>
          (let (isle, b) = Island_add_body (islands w ! k) b
           in Some (w\<lparr>islands := (islands w)[k := isle]\<rparr>, b)))"

definition World_add_body :: "world \<Rightarrow> body \<Rightarrow> (world \<times> body) option" where
  "World_add_body w b =
     (if \<not> active w then Some (w, b)
      else let b = b\<lparr>b_id := Some (w_body_count w)\<rparr>;
               w = w\<lparr>w_body_count := w_body_count w + 1\<rparr>
           in case World_add_body_by_point w b (b_x b - b_radius b) (b_y b - b_radius b) of
                None \<Rightarrow> None
              | Some (w, b) \<Rightarrow>
           (case World_add_body_by_point w b (b_x b + b_radius b) (b_y b - b_radius b) of
                None \<Rightarrow> None
              | Some (w, b) \<Rightarrow>
           (case World_add_body_by_point w b (b_x b - b_radius b) (b_y b + b_radius b) of
                None \<Rightarrow> None
              | Some (w, b) \<Rightarrow>
            World_add_body_by_point w b (b_x b + b_radius b) (b_y b + b_radius b))))"

text \<open>\<open>for island in body.islands.items[:]: island.remove_body(body)\<close>, the islands being
  looked up in the world by their ids.\<close>

fun remove_from_islands :: "(int \<times> int) list \<Rightarrow> world \<Rightarrow> body \<Rightarrow> world \<times> body" where
  "remove_from_islands [] w b = (w, b)"
| "remove_from_islands (ident # idents) w b =
     (case index_of i_id ident (islands w) of
        None \<Rightarrow> remove_from_islands idents w b
      | Some k \<Rightarrow>
          (let (isle, b) = Island_remove_body (islands w ! k) b
           in remove_from_islands idents (w\<lparr>islands := (islands w)[k := isle]\<rparr>) b))"

definition World_remove_body :: "world \<Rightarrow> body \<Rightarrow> world \<times> body" where
  "World_remove_body w b = (if \<not> active w then (w, b) else remove_from_islands (b_islands b) w b)"

definition World_get_body_by_point :: "world \<Rightarrow> body \<Rightarrow> real \<Rightarrow> real \<Rightarrow> body option option" where
  "World_get_body_by_point w b x y =
     (case World_get_island_by_point w x y of
        None \<Rightarrow> None
      | Some None \<Rightarrow> Some None
      | Some (Some isle) \<Rightarrow> Some (Island_get_body isle b))"

text \<open>The \<open>or\<close> chain of \<open>World.get_body\<close>: the first point that yields a body decides.\<close>

fun first_body :: "world \<Rightarrow> body \<Rightarrow> (real \<times> real) list \<Rightarrow> body option option" where
  "first_body w b [] = Some None"
| "first_body w b (p # ps) =
     (case World_get_body_by_point w b (fst p) (snd p) of
        None \<Rightarrow> None
      | Some (Some other) \<Rightarrow> Some (Some other)
      | Some None \<Rightarrow> first_body w b ps)"

definition corners :: "body \<Rightarrow> (real \<times> real) list" where
  "corners b =
     [(b_x b - b_radius b, b_y b - b_radius b), (b_x b + b_radius b, b_y b - b_radius b),
      (b_x b - b_radius b, b_y b + b_radius b), (b_x b + b_radius b, b_y b + b_radius b)]"

definition World_get_body :: "world \<Rightarrow> body \<Rightarrow> body option option" where
  "World_get_body w b = first_body w b (corners b)"

definition World_test_body_by_point :: "world \<Rightarrow> body \<Rightarrow> real \<Rightarrow> real \<Rightarrow> bool option" where
  "World_test_body_by_point w b x y =
     (case World_get_island_by_point w x y of
        None \<Rightarrow> None
      | Some None \<Rightarrow> Some False
      | Some (Some isle) \<Rightarrow> Some (Island_test_body isle b))"

text \<open>The \<open>and\<close> chain of \<open>World.test_body\<close>: the first point that fails decides.\<close>

fun all_free :: "world \<Rightarrow> body \<Rightarrow> (real \<times> real) list \<Rightarrow> bool option" where
  "all_free w b [] = Some True"
| "all_free w b (p # ps) =
     (case World_test_body_by_point w b (fst p) (snd p) of
        None \<Rightarrow> None
      | Some False \<Rightarrow> Some False
      | Some True \<Rightarrow> all_free w b ps)"

definition World_test_body :: "world \<Rightarrow> body \<Rightarrow> bool option" where
  "World_test_body w b = all_free w b (corners b)"

definition World_get_random_point :: "world \<Rightarrow> real \<Rightarrow> real \<Rightarrow> real" where
  "World_get_random_point w u margin = margin + u * (w_size w - margin * 2)"

definition World_get_bound_intersect :: "world \<Rightarrow> body \<Rightarrow> real \<Rightarrow> (real \<times> real) option" where
  "World_get_bound_intersect w b margin =
     (if b_x b - margin < 0 then Some (0, b_y b)
      else if w_size w < b_x b + margin then Some (w_size w, b_y b)
      else if b_y b - margin < 0 then Some (b_x b, 0)
      else if w_size w < b_y b + margin then Some (b_x b, w_size w)
      else None)"

definition World_get_opposite :: "world \<Rightarrow> real \<Rightarrow> real \<Rightarrow> real \<times> real" where
  "World_get_opposite w x y =
     (if x = 0 then (w_size w, y)
      else if x = w_size w then (0, y)
      else if y = 0 then (x, w_size w)
      else if y = w_size w then (x, 0)
      else (x, y))"

definition World_clear :: "world \<Rightarrow> world" where
  "World_clear w = w\<lparr>active := False, w_body_count := 0, islands := map Island_clear (islands w)\<rparr>"

definition World_activate :: "world \<Rightarrow> world" where
  "World_activate w = w\<lparr>active := True\<rparr>"

section \<open>models/base_game.py, models/game.py, models/game_bonus_stack.py, managers/*.py\<close>

text \<open>
  The game with the objects it owns.  \<open>deaths\<close>, a collection of avatars keyed by id of
  which only the count is ever read, is the list of its ids.  \<open>round_winner\<close> and
  \<open>game_winner\<close> refer to an avatar by its position in \<open>avatars\<close>.  \<open>bonuses\<close> and
  \<open>id_counter\<close> are the auto-indexed collection of the bonus manager.  \<open>entropy\<close> is the
  sequence of values the calls of \<open>random.random()\<close> return and \<open>rand_calls\<close> how many of
  them are used up; a call site that may draw reserves one value.  Timers
  (\<open>call_later\<close>) are not part of the state: what they call is an operation of its own.
\<close>

record bonus_manager =
  bonuses :: "bonus list"
  id_counter :: nat
  bm_world :: world
  bonus_types :: "bonus_class list"
  bonus_poping_time :: real
  poping_timeout :: bool

record game =
  g_size :: int
  world :: world
  avatars :: "avatar list"
  deaths :: "nat list"
  game_bonus_stack :: "bonus list"
  round_winner :: "nat option"
  game_winner :: "nat option"
  death_in_frame :: bool
  started :: bool
  in_round :: bool
  borderless :: bool
  max_score :: int
  bonus_manager :: bonus_manager
  frame_task :: bool
  game_attrs :: "(string \<times> py_value) list"
  entropy :: "nat \<Rightarrow> real"
  rand_calls :: nat

definition DEFAULT_BORDERLESS :: bool where "DEFAULT_BORDERLESS = False"
definition per_player_size :: real where "per_player_size = 80"
definition spawn_margin :: real where "spawn_margin = 0.05"
definition spawn_angle_margin :: real where "spawn_angle_margin = 0.3"
definition bonus_cap :: int where "bonus_cap = 20"
definition bonus_poping_margin :: real where "bonus_poping_margin = 0.01"

definition draw :: "game \<Rightarrow> real" where
  "draw g = entropy g (rand_calls g)"

definition advance :: "game \<Rightarrow> game" where
  "advance g = g\<lparr>rand_calls := Suc (rand_calls g)\<rparr>"

text \<open>\<open>Game._on_point\<close>, the listener of the avatars' \<open>point\<close> events.\<close>

definition Game_on_point :: "nat \<Rightarrow> real \<times> real \<Rightarrow> game \<Rightarrow> game option" where
  "Game_on_point i p g =
     (if started g \<and> active (world g)
      then let (b, a) = AvatarBody_init (fst p) (snd p) (avatars g ! i)
           in case World_add_body (world g) b of
                None \<Rightarrow> None
              | Some (w, b) \<Rightarrow> Some (g\<lparr>world := w, avatars := (avatars g)[i := a]\<rparr>)
      else Some g)"

fun deliver_points :: "nat \<Rightarrow> (real \<times> real) list \<Rightarrow> game \<Rightarrow> game option" where
  "deliver_points i [] g = Some g"
| "deliver_points i (p # ps) g =
     (case Game_on_point i p g of None \<Rightarrow> None | Some g \<Rightarrow> deliver_points i ps g)"

text \<open>A method call on the avatar at position \<open>i\<close>; the \<open>point\<close> events it emits reach the
  game's listener in the order of emission.\<close>

definition Game_on_avatar :: "nat \<Rightarrow> (avatar \<Rightarrow> avatar option) \<Rightarrow> game \<Rightarrow> game option" where
  "Game_on_avatar i method g =
     (case method (avatars g ! i) of
        None \<Rightarrow> None
      | Some a \<Rightarrow>
          deliver_points i (point_events a)
            (g\<lparr>avatars := (avatars g)[i := a\<lparr>point_events := []\<rparr>]\<rparr>))"

definition BaseGame_get_alive_avatars :: "game \<Rightarrow> avatar list" where
  "BaseGame_get_alive_avatars g = Collection_filter av_id alive (avatars g)"

definition BaseGame_get_present_avatars :: "game \<Rightarrow> avatar list" where
  "BaseGame_get_present_avatars g = Collection_filter av_id present (avatars g)"

definition BaseGame_get_size :: "int \<Rightarrow> int" where
  "BaseGame_get_size players =
     (let square = per_player_size * per_player_size
      in py_round (sqrt (square + (real_of_int (players - 1) * square / 5))))"

subsection \<open>The game's bonus stack\<close>

definition GameBonusStack_get_default_property :: "string \<Rightarrow> py_value" where
  "GameBonusStack_get_default_property prop =
     (if prop = ''borderless'' then VBool DEFAULT_BORDERLESS else VInt 0)"

definition Game_set_borderless :: "bool \<Rightarrow> game \<Rightarrow> game" where
  "Game_set_borderless b g = (if borderless g \<noteq> b then g\<lparr>borderless := b\<rparr> else g)"

definition GameBonusStack_apply :: "string \<Rightarrow> py_value \<Rightarrow> game \<Rightarrow> game option" where
  "GameBonusStack_apply prop v g =
     (if prop = ''borderless'' then Some (Game_set_borderless (py_bool v) g)
      else Some (g\<lparr>game_attrs := dict_set (game_attrs g) prop v\<rparr>))"

definition GameBonusStack_resolve :: "bonus option \<Rightarrow> game \<Rightarrow> game option" where
  "GameBonusStack_resolve removed g =
     (case resolve_properties GameBonusStack_get_default_property BaseBonusStack_append
             (game_bonus_stack g) removed of
        None \<Rightarrow> None
      | Some properties \<Rightarrow> apply_properties GameBonusStack_apply properties g)"

definition GameBonusStack_add :: "bonus \<Rightarrow> game \<Rightarrow> game option" where
  "GameBonusStack_add b g =
     (case Collection_add bonus_id (game_bonus_stack g) b of
        (bs, True) \<Rightarrow> GameBonusStack_resolve None (g\<lparr>game_bonus_stack := bs\<rparr>)
      | (bs, False) \<Rightarrow> Some g)"

definition GameBonusStack_remove :: "bonus \<Rightarrow> game \<Rightarrow> game option" where
  "GameBonusStack_remove b g =
     (case Collection_remove bonus_id (game_bonus_stack g) b of
        (bs, True) \<Rightarrow> GameBonusStack_resolve (Some b) (g\<lparr>game_bonus_stack := bs\<rparr>)
      | (bs, False) \<Rightarrow> Some g)"

definition Game_clear_trails :: "game \<Rightarrow> game" where
  "Game_clear_trails g = g\<lparr>world := World_activate (World_clear (world g))\<rparr>"

subsection \<open>Applying a bonus\<close>

datatype affect_kind = Affect_self | Affect_enemy | Affect_all | Affect_game

fun affect :: "bonus_class \<Rightarrow> affect_kind" where
  "affect BonusSelfSmall = Affect_self"
| "affect BonusSelfSlow = Affect_self"
| "affect BonusSelfFast = Affect_self"
| "affect BonusSelfMaster = Affect_self"
| "affect BonusEnemySlow = Affect_enemy"
| "affect BonusEnemyFast = Affect_enemy"
| "affect BonusEnemyBig = Affect_enemy"
| "affect BonusEnemyInverse = Affect_enemy"
| "affect BonusEnemyStraightAngle = Affect_enemy"
| "affect BonusGameBorderless = Affect_game"
| "affect BonusGameClear = Affect_game"
| "affect BonusAllColor = Affect_all"

definition Bonus_get_target :: "bonus \<Rightarrow> nat \<Rightarrow> game \<Rightarrow> bonus_target" where
  "Bonus_get_target b i g =
     (case affect (bonus_class b) of
        Affect_self \<Rightarrow> if alive (avatars g ! i) then AvatarTarget i else NoTarget
      | Affect_enemy \<Rightarrow>
          AvatarsTarget (filter (\<lambda>j. alive (avatars g ! j) \<and> av_id (avatars g ! j) \<noteq> av_id (avatars g ! i))
                           [0..<length (avatars g)])
      | Affect_all \<Rightarrow> AvatarsTarget (filter (\<lambda>j. alive (avatars g ! j)) [0..<length (avatars g)])
      | Affect_game \<Rightarrow> GameTarget)"

text \<open>\<open>avatar.bonus_stack.add(self)\<close> and \<open>remove(self)\<close> for each avatar of a target list.\<close>

fun stack_add_all :: "bonus \<Rightarrow> nat list \<Rightarrow> game \<Rightarrow> game option" where
  "stack_add_all b [] g = Some g"
| "stack_add_all b (j # js) g =
     (case Game_on_avatar j (BonusStack_add (draw g) b) (advance g) of
        None \<Rightarrow> None
      | Some g \<Rightarrow> stack_add_all b js g)"

fun stack_remove_all :: "bonus \<Rightarrow> nat list \<Rightarrow> game \<Rightarrow> game option" where
  "stack_remove_all b [] g = Some g"
| "stack_remove_all b (j # js) g =
     (case Game_on_avatar j (BonusStack_remove (draw g) b) (advance g) of
        None \<Rightarrow> None
      | Some g \<Rightarrow> stack_remove_all b js g)"

text \<open>\<open>on()\<close> and \<open>off()\<close> as the classes \<open>BonusSelf\<close>, \<open>BonusEnemy\<close>, \<open>BonusAll\<close>,
  \<open>BonusGame\<close> and \<open>BonusGameClear\<close> define them; a target of the wrong kind for the
  class would raise \<open>AttributeError\<close>.\<close>

definition Bonus_on :: "bonus \<Rightarrow> game \<Rightarrow> game option" where
  "Bonus_on b g =
     (case affect (bonus_class b) of
        Affect_self \<Rightarrow>
          (case target b of
             NoTarget \<Rightarrow> Some g
           | AvatarTarget j \<Rightarrow> stack_add_all b [j] g
           | _ \<Rightarrow> None)
      | Affect_game \<Rightarrow>
          (case target b of
             NoTarget \<Rightarrow> Some g
           | GameTarget \<Rightarrow>
               if bonus_class b = BonusGameClear then Some (Game_clear_trails g)
               else GameBonusStack_add b g
           | _ \<Rightarrow> None)
      | _ \<Rightarrow>
          (case target b of
             NoTarget \<Rightarrow> Some g
           | AvatarsTarget js \<Rightarrow> stack_add_all b js g
           | _ \<Rightarrow> None))"

definition Bonus_off :: "bonus \<Rightarrow> game \<Rightarrow> game option" where
  "Bonus_off b g =
     (case affect (bonus_class b) of
        Affect_self \<Rightarrow>
          (case target b of
             NoTarget \<Rightarrow> Some g
           | AvatarTarget j \<Rightarrow> stack_remove_all b [j] g
           | _ \<Rightarrow> None)
      | Affect_game \<Rightarrow>
          (case target b of
             NoTarget \<Rightarrow> Some g
           | GameTarget \<Rightarrow> GameBonusStack_remove b g
           | _ \<Rightarrow> None)
      | _ \<Rightarrow>
          (case target b of
             NoTarget \<Rightarrow> Some g
           | AvatarsTarget js \<Rightarrow> stack_remove_all b js g
           | _ \<Rightarrow> None))"

definition Bonus_apply_to :: "bonus \<Rightarrow> nat \<Rightarrow> game \<Rightarrow> game option" where
  "Bonus_apply_to b i g =
     (let b = b\<lparr>target := Bonus_get_target b i g\<rparr>;
          b = (if duration (bonus_class b) \<noteq> 0 then b\<lparr>timeout_handle := True\<rparr> else b)
      in Bonus_on b g)"

definition Bonus_clear :: "bonus \<Rightarrow> bonus" where
  "Bonus_clear b = (if timeout_handle b then b\<lparr>timeout_handle := False\<rparr> else b)"

definition BonusGameClear_get_probability :: "game \<Rightarrow> real" where
  "BonusGameClear_get_probability g =
     (let alive_count = Collection_count (BaseGame_get_alive_avatars g);
          present_count = Collection_count (BaseGame_get_present_avatars g)
      in if present_count = 0 then 0
         else let ratio = 1 - real_of_int alive_count / real_of_int present_count
              in if ratio < 0.5 then probability BonusGameClear
                 else real_of_int (py_round ((BaseBonus_probability - ratio) * 10)) / 10)"

definition get_probability :: "bonus_class \<Rightarrow> game \<Rightarrow> real" where
  "get_probability cls g =
     (if cls = BonusGameClear then BonusGameClear_get_probability g else probability cls)"

subsection \<open>Random placement (core/world.py)\<close>

text \<open>
  The sampling loops take the sequence \<open>rnd\<close> of random values and the position \<open>k\<close> of
  the next unused one, and return the position reached.  \<open>attempts\<close> counts the
  resamplings, as in the source.
\<close>

function position_loop ::
  "world \<Rightarrow> (nat \<Rightarrow> real) \<Rightarrow> real \<Rightarrow> nat \<Rightarrow> nat \<Rightarrow> body \<Rightarrow> (body \<times> nat) option" where
  "position_loop w rnd margin k attempts b =
     (case World_test_body w b of
        None \<Rightarrow> None
      | Some free \<Rightarrow>
          if \<not> free \<and> attempts < 1000
          then position_loop w rnd margin (k + 2) (attempts + 1)
                 (b\<lparr>b_x := World_get_random_point w (rnd k) margin,
                    b_y := World_get_random_point w (rnd (k + 1)) margin\<rparr>)
          else Some (b, k))"
  by pat_completeness auto
termination
  by (relation "measure (\<lambda>(w, rnd, margin, k, attempts, b). 1000 - attempts)") auto

declare position_loop.simps [simp del]

definition World_get_random_position ::
  "world \<Rightarrow> (nat \<Rightarrow> real) \<Rightarrow> nat \<Rightarrow> real \<Rightarrow> real \<Rightarrow> ((real \<times> real) \<times> nat) option" where
  "World_get_random_position w rnd k r border =
     (let margin = r + border * w_size w;
          b = Body_init (World_get_random_point w (rnd k) margin)
                (World_get_random_point w (rnd (k + 1)) margin) margin NoData
      in map_option (\<lambda>(b, k). ((b_x b, b_y b), k)) (position_loop w rnd margin (k + 2) 0 b))"

definition World_get_random_angle :: "real \<Rightarrow> real" where
  "World_get_random_angle u = u * pi * 2"

definition World_get_distance_to_border :: "world \<Rightarrow> nat \<Rightarrow> real \<Rightarrow> real \<Rightarrow> real" where
  "World_get_distance_to_border w border x y =
     (if border = 0 then w_size w - x
      else if border = 1 then w_size w - y
      else if border = 2 then x
      else if border = 3 then y
      else 0)"

text \<open>\<open>_get_hypotenuse\<close> returns \<open>float('inf')\<close>, here \<open>None\<close>, when the cosine is tiny;
  infinity is below no margin.\<close>

definition World_get_hypotenuse :: "real \<Rightarrow> real \<Rightarrow> real option" where
  "World_get_hypotenuse ang adjacent =
     (let cos_val = cos ang in if \<bar>cos_val\<bar> < 0.001 then None else Some (adjacent / cos_val))"

definition below :: "real option \<Rightarrow> real \<Rightarrow> bool" where
  "below h margin = (case h of None \<Rightarrow> False | Some v \<Rightarrow> v < margin)"

fun direction_valid_from :: "world \<Rightarrow> nat list \<Rightarrow> real \<Rightarrow> real \<Rightarrow> real \<Rightarrow> real \<Rightarrow> bool" where
  "direction_valid_from w [] ang x y margin = True"
| "direction_valid_from w (i # is) ang x y margin =
     (let quarter = pi / 2;
          from_angle = quarter * real i;
          to_angle = quarter * real (i + 1)
      in if from_angle \<le> ang \<and> ang < to_angle
         then if below (World_get_hypotenuse (ang - from_angle)
                          (World_get_distance_to_border w i x y)) margin
              then False
              else if below (World_get_hypotenuse (to_angle - ang)
                               (World_get_distance_to_border w ((i + 1) mod 4) x y)) margin
              then False
              else True
         else direction_valid_from w is ang x y margin)"

definition World_is_direction_valid :: "world \<Rightarrow> real \<Rightarrow> real \<Rightarrow> real \<Rightarrow> real \<Rightarrow> bool" where
  "World_is_direction_valid w ang x y margin = direction_valid_from w [0, 1, 2, 3] ang x y margin"

function direction_loop ::
  "world \<Rightarrow> (nat \<Rightarrow> real) \<Rightarrow> real \<Rightarrow> real \<Rightarrow> real \<Rightarrow> nat \<Rightarrow> nat \<Rightarrow> real \<Rightarrow> real \<times> nat" where
  "direction_loop w rnd x y margin k attempts direction =
     (if \<not> World_is_direction_valid w direction x y margin \<and> attempts < 100
      then direction_loop w rnd x y margin (k + 1) (attempts + 1) (World_get_random_angle (rnd k))
      else (direction, k))"
  by pat_completeness auto
termination
  by (relation "measure (\<lambda>(w, rnd, x, y, margin, k, attempts, direction). 100 - attempts)") auto

declare direction_loop.simps [simp del]

definition World_get_random_direction ::
  "world \<Rightarrow> (nat \<Rightarrow> real) \<Rightarrow> nat \<Rightarrow> real \<Rightarrow> real \<Rightarrow> real \<Rightarrow> real \<times> nat" where
  "World_get_random_direction w rnd k x y tolerance =
     direction_loop w rnd x y (tolerance * w_size w) (k + 1) 0 (World_get_random_angle (rnd k))"

subsection \<open>The bonus manager\<close>

text \<open>\<open>Collection._set_id\<close> of the auto-indexed collection: a bonus without an id gets the
  next one, and its body's reference to it follows.\<close>

definition Collection_set_id :: "nat \<Rightarrow> bonus \<Rightarrow> nat \<times> bonus" where
  "Collection_set_id counter b =
     (case bonus_id b of
        Some (Suc n) \<Rightarrow> (if counter < Suc n then Suc n else counter, b)
      | _ \<Rightarrow> (counter + 1,
               b\<lparr>bonus_id := Some (counter + 1),
                  bonus_body := (bonus_body b)\<lparr>b_data := BonusData (Some (counter + 1))\<rparr>\<rparr>))"

definition BaseBonusManager_add :: "bonus \<Rightarrow> bonus_manager \<Rightarrow> bonus_manager \<times> bonus \<times> bool" where
  "BaseBonusManager_add b m =
     (let (counter, b) = Collection_set_id (id_counter m) b;
          (bs, added) = Collection_add bonus_id (bonuses m) b
      in (m\<lparr>bonuses := bs, id_counter := counter\<rparr>, b, added))"

text \<open>\<open>BonusManager.add\<close>: the body joins the manager's world, and the bonus kept in the
  collection is the object whose body was just indexed.\<close>

definition BonusManager_add :: "bonus \<Rightarrow> bonus_manager \<Rightarrow> (bonus_manager \<times> bool) option" where
  "BonusManager_add b m =
     (case BaseBonusManager_add b m of
        (m, b, True) \<Rightarrow>
          (case World_add_body (bm_world m) (bonus_body b) of
             None \<Rightarrow> None
           | Some (w, bd) \<Rightarrow>
               Some (m\<lparr>bm_world := w,
                       bonuses := map (\<lambda>c. if bonus_id c = bonus_id b then c\<lparr>bonus_body := bd\<rparr> else c)
                                    (bonuses m)\<rparr>, True))
      | (m, b, False) \<Rightarrow> Some (m, False))"

text \<open>\<open>BonusManager.remove\<close>, given the id of the bonus object: the collection is
  searched by id, and the bonus removed is returned in place of \<open>True\<close>.  For a bonus
  that is not in the collection the call returns \<open>False\<close>.\<close>

definition BonusManager_remove :: "nat option \<Rightarrow> bonus_manager \<Rightarrow> bonus_manager \<times> bonus option" where
  "BonusManager_remove bid m =
     (case Collection_get_by_id bonus_id (bonuses m) bid of
        None \<Rightarrow> (m, None)
      | Some b \<Rightarrow>
          (let b = Bonus_clear b;
               bs = fst (Collection_remove bonus_id (bonuses m) b);
               (w, bd) = World_remove_body (bm_world m) (bonus_body b)
           in (m\<lparr>bonuses := bs, bm_world := w\<rparr>, Some (b\<lparr>bonus_body := bd\<rparr>))))"

definition BaseBonusManager_clear :: "bonus_manager \<Rightarrow> bonus_manager" where
  "BaseBonusManager_clear m = m\<lparr>bonuses := [], id_counter := 0\<rparr>"

definition BonusManager_clear :: "bonus_manager \<Rightarrow> bonus_manager" where
  "BonusManager_clear m = BaseBonusManager_clear (m\<lparr>bm_world := World_clear (bm_world m)\<rparr>)"

text \<open>\<open>BonusManager.test_catch\<close>.  Only bodies of bonuses are ever added to the manager's
  world; a body of another kind found there is outside the model.\<close>

definition BonusManager_test_catch :: "nat \<Rightarrow> game \<Rightarrow> game option" where
  "BonusManager_test_catch i g =
     (case World_get_body (bm_world (bonus_manager g)) (body (avatars g ! i)) of
        None \<Rightarrow> None
      | Some None \<Rightarrow> Some g
      | Some (Some bd) \<Rightarrow>
          (case b_data bd of
             BonusData bid \<Rightarrow>
               (case BonusManager_remove bid (bonus_manager g) of
                  (m, Some bonus) \<Rightarrow> Bonus_apply_to bonus i (g\<lparr>bonus_manager := m\<rparr>)
                | (m, None) \<Rightarrow> Some (g\<lparr>bonus_manager := m\<rparr>))
           | _ \<Rightarrow> None))"

subsection \<open>The tick\<close>

definition Game_kill :: "nat \<Rightarrow> int \<Rightarrow> game \<Rightarrow> game option" where
  "Game_kill i sc g =
     (case Game_on_avatar i (\<lambda>a. Some (Avatar_die (draw g) a)) (advance g) of
        None \<Rightarrow> None
      | Some g \<Rightarrow>
          (let a = BaseAvatar_add_score sc (avatars g ! i)
           in Some (g\<lparr>avatars := (avatars g)[i := a],
                      deaths := fst (Collection_add id (deaths g) (av_id a)),
                      death_in_frame := True\<rparr>)))"

text \<open>The body of the loop of \<open>Game.update\<close> for the avatar at position \<open>i\<close>, in the
  three blocks of the source: the avatar's own update, the check of the border and of
  the other bodies, and, for an avatar still alive, the print manager and the
  bonuses.\<close>

definition Game_check_collision :: "int \<Rightarrow> nat \<Rightarrow> game \<Rightarrow> game option" where
  "Game_check_collision sc i g =
     (let a = avatars g ! i;
          border = World_get_bound_intersect (world g) (body a)
                     (if borderless g then 0 else radius a)
      in case border of
           Some bp \<Rightarrow>
             if borderless g
             then let position = World_get_opposite (world g) (fst bp) (snd bp)
                  in Some (g\<lparr>avatars := (avatars g)
                             [i := Avatar_set_position (fst position) (snd position) a]\<rparr>)
             else Game_kill i sc g
         | None \<Rightarrow>
             if \<not> invincible a
             then case World_get_body (world g) (body a) of
                    None \<Rightarrow> None
                  | Some None \<Rightarrow> Some g
                  | Some (Some killer) \<Rightarrow> Game_kill i sc g
             else Some g)"

definition Game_test_print_and_catch :: "nat \<Rightarrow> game \<Rightarrow> game option" where
  "Game_test_print_and_catch i g =
     (if alive (avatars g ! i)
      then case Game_on_avatar i (\<lambda>a. Some (PrintManager_test (draw g) a)) (advance g) of
             None \<Rightarrow> None
           | Some g \<Rightarrow> BonusManager_test_catch i g
      else Some g)"

definition Game_update_avatar :: "real \<Rightarrow> int \<Rightarrow> nat \<Rightarrow> game \<Rightarrow> game option" where
  "Game_update_avatar step sc i g =
     (if alive (avatars g ! i)
      then case Game_on_avatar i (\<lambda>a. Some (Avatar_update step a)) g of
             None \<Rightarrow> None
           | Some g \<Rightarrow>
               (case Game_check_collision sc i g of
                  None \<Rightarrow> None
                | Some g \<Rightarrow> Game_test_print_and_catch i g)
      else Some g)"

fun Game_update_avatars :: "real \<Rightarrow> int \<Rightarrow> nat list \<Rightarrow> game \<Rightarrow> game option" where
  "Game_update_avatars step sc [] g = Some g"
| "Game_update_avatars step sc (i # is) g =
     (case Game_update_avatar step sc i g of
        None \<Rightarrow> None
      | Some g \<Rightarrow> Game_update_avatars step sc is g)"

subsection \<open>Rounds\<close>

text \<open>\<open>Collection.match\<close> on the avatars: the position of the first one alive.\<close>

fun first_alive :: "avatar list \<Rightarrow> nat option" where
  "first_alive [] = None"
| "first_alive (a # as) = (if alive a then Some 0 else map_option Suc (first_alive as))"

definition Game_resolve_scores :: "game \<Rightarrow> game" where
  "Game_resolve_scores g =
     (let n = Collection_count (avatars g);
          winner = (if n = 1 then (if avatars g = [] then None else Some 0)
                    else first_alive (avatars g));
          g = (case winner of
                 Some k \<Rightarrow>
                   g\<lparr>avatars := (avatars g)[k := BaseAvatar_add_score (max (n - 1) 1) (avatars g ! k)],
                     round_winner := Some k\<rparr>
               | None \<Rightarrow> g)
      in g\<lparr>avatars := map BaseAvatar_resolve_score (avatars g)\<rparr>)"

definition Game_on_round_end :: "game \<Rightarrow> game" where
  "Game_on_round_end g = Game_resolve_scores g"

definition BaseGame_end_round :: "game \<Rightarrow> game" where
  "BaseGame_end_round g = (if in_round g then Game_on_round_end (g\<lparr>in_round := False\<rparr>) else g)"

text \<open>The counting loop of \<open>check_round_end\<close> returns as soon as a second avatar alive is
  met.\<close>

fun more_than_one_alive :: "avatar list \<Rightarrow> int \<Rightarrow> bool" where
  "more_than_one_alive [] alive_count = False"
| "more_than_one_alive (a # as) alive_count =
     (if alive a
      then (if 1 < alive_count + 1 then True else more_than_one_alive as (alive_count + 1))
      else more_than_one_alive as alive_count)"

definition Game_check_round_end :: "game \<Rightarrow> game" where
  "Game_check_round_end g =
     (if \<not> in_round g then g
      else if more_than_one_alive (avatars g) 0 then g
      else BaseGame_end_round g)"

definition Game_update :: "real \<Rightarrow> game \<Rightarrow> game option" where
  "Game_update step g =
     (let sc = Collection_count (deaths g);
          g = g\<lparr>death_in_frame := False\<rparr>
      in case Game_update_avatars step sc [0..<length (avatars g)] g of
           None \<Rightarrow> None
         | Some g \<Rightarrow> Some (if death_in_frame g then Game_check_round_end g else g))"

subsection \<open>Life cycle of a game\<close>

text \<open>\<open>BaseGame.remove_avatar\<close> and its override; \<open>i\<close> is the position of the avatar,
  which is in the game exactly when the position exists.\<close>

definition Game_remove_avatar :: "nat \<Rightarrow> game \<Rightarrow> game option" where
  "Game_remove_avatar i g =
     (if i < length (avatars g)
      then case Game_on_avatar i (\<lambda>a. Some (Avatar_die (draw g) a)) (advance g) of
             None \<Rightarrow> None
           | Some g \<Rightarrow>
               (case Game_on_avatar i (\<lambda>a. Some (BaseAvatar_destroy (draw g) a)) (advance g) of
                  None \<Rightarrow> None
                | Some g \<Rightarrow> Some (Game_check_round_end g))
      else Some (Game_check_round_end g))"

text \<open>The loop of \<open>BaseGame.on_round_new\<close> that clears the present avatars, and the loop of
  \<open>Game.on_round_new\<close> that places them.\<close>

fun clear_present :: "nat list \<Rightarrow> game \<Rightarrow> game option" where
  "clear_present [] g = Some g"
| "clear_present (i # is) g =
     (if present (avatars g ! i)
      then case Game_on_avatar i (\<lambda>a. Some (Avatar_clear (draw g) a)) (advance g) of
             None \<Rightarrow> None
           | Some g \<Rightarrow> clear_present is g
      else clear_present is g)"

fun place_present :: "nat list \<Rightarrow> game \<Rightarrow> game option" where
  "place_present [] g = Some g"
| "place_present (i # is) g =
     (let a = avatars g ! i
      in if present a
         then case World_get_random_position (world g) (entropy g) (rand_calls g) (radius a)
                     spawn_margin of
                None \<Rightarrow> None
              | Some (position, k) \<Rightarrow>
                  (let a = Avatar_set_position (fst position) (snd position) a;
                       (direction, k) = World_get_random_direction (world g) (entropy g) k
                                          (av_x a) (av_y a) spawn_angle_margin;
                       a = Avatar_set_angle direction a
                   in place_present is (g\<lparr>avatars := (avatars g)[i := a], rand_calls := k\<rparr>))
         else place_present is
                (g\<lparr>deaths := fst (Collection_add id (deaths g) (av_id a))\<rparr>))"

definition Game_on_round_new :: "game \<Rightarrow> game option" where
  "Game_on_round_new g =
     (let g = g\<lparr>borderless := DEFAULT_BORDERLESS,
                bonus_manager := BonusManager_clear (bonus_manager g)\<rparr>
      in case clear_present [0..<length (avatars g)] g of
           None \<Rightarrow> None
         | Some g \<Rightarrow>
             place_present [0..<length (avatars g)]
               (g\<lparr>round_winner := None, world := World_clear (world g), deaths := [],
                  game_bonus_stack := []\<rparr>))"

definition BaseGame_new_round :: "game \<Rightarrow> game option" where
  "BaseGame_new_round g =
     (let g = g\<lparr>started := True\<rparr>
      in if \<not> in_round g then Game_on_round_new (g\<lparr>in_round := True\<rparr>) else Some g)"

definition BonusManager_start :: "bonus_manager \<Rightarrow> bonus_manager" where
  "BonusManager_start m =
     (let m = BonusManager_clear m;
          m = m\<lparr>bm_world := World_activate (bm_world m)\<rparr>
      in if bonus_types m \<noteq> [] then m\<lparr>poping_timeout := True\<rparr> else m)"

definition BonusManager_stop :: "bonus_manager \<Rightarrow> bonus_manager" where
  "BonusManager_stop m = BonusManager_clear (m\<lparr>poping_timeout := False\<rparr>)"

definition Game_on_start :: "game \<Rightarrow> game" where
  "Game_on_start g =
     g\<lparr>world := World_activate (world g), bonus_manager := BonusManager_start (bonus_manager g)\<rparr>"

definition BaseGame_start :: "game \<Rightarrow> game" where
  "BaseGame_start g = (if \<not> frame_task g then (Game_on_start g)\<lparr>frame_task := True\<rparr> else g)"

text \<open>\<open>Game.is_won\<close> returns an avatar, \<open>True\<close> or \<open>None\<close>.\<close>

datatype won = Not_won | Won | Won_by nat

definition Game_is_won :: "game \<Rightarrow> won" where
  "Game_is_won g =
     (let present_count = Collection_count (BaseGame_get_present_avatars g)
      in if present_count \<le> 0 then Won
         else if 1 < Collection_count (avatars g) \<and> present_count \<le> 1 then Won
         else let players = Collection_filter av_id
                              (\<lambda>a. present a \<and> max_score g \<le> score a) (avatars g)
              in if Collection_count players = 0 then Not_won
                 else if Collection_count players = 1 then Won_by (av_id (hd players))
                 else let players = sort_key (\<lambda>a. - score a) players
                      in if score (players ! 0) = score (players ! 1) then Not_won
                         else Won_by (av_id (hd players)))"

definition Game_end :: "game \<Rightarrow> game" where
  "Game_end g =
     (if started g
      then g\<lparr>started := False, avatars := [], world := World_clear (world g)\<rparr>
      else g)"

text \<open>\<open>Game.set_size\<close>; building a world can divide by zero.\<close>

definition Game_set_size :: "int \<Rightarrow> game \<Rightarrow> game option" where
  "Game_set_size sz g =
     (case World_init (real_of_int sz) None of
        None \<Rightarrow> None
      | Some w \<Rightarrow>
          (case World_init (real_of_int sz) (Some 1) of
             None \<Rightarrow> None
           | Some bw \<Rightarrow>
               Some (g\<lparr>g_size := sz, world := w,
                       bonus_manager := (bonus_manager g)\<lparr>bm_world := bw\<rparr>\<rparr>)))"

definition Game_on_stop :: "game \<Rightarrow> game option" where
  "Game_on_stop g =
     (let g = g\<lparr>bonus_manager := BonusManager_stop (bonus_manager g)\<rparr>;
          sz = BaseGame_get_size (Collection_count (BaseGame_get_present_avatars g))
      in case (if g_size g \<noteq> sz then Game_set_size sz g else Some g) of
           None \<Rightarrow> None
         | Some g \<Rightarrow>
             (case Game_is_won g of
                Not_won \<Rightarrow> BaseGame_new_round g
              | Won \<Rightarrow> Some (Game_end g)
              | Won_by pid \<Rightarrow>
                  Some (Game_end (g\<lparr>game_winner := index_of av_id pid (avatars g)\<rparr>))))"

definition BaseGame_stop :: "game \<Rightarrow> game option" where
  "BaseGame_stop g = (if frame_task g then Game_on_stop (g\<lparr>frame_task := False\<rparr>) else Some g)"

text \<open>
  What can happen to a running game: a frame of the loop, the timers firing (\<open>start\<close>
  after the warm-up, \<open>stop\<close> after the warm-down, the start of a print manager, the
  expiry \<open>off()\<close> of an applied bonus, the spawning of a bonus), and the requests of the
  controller (\<open>new_round\<close>, the removal of an avatar, a steering move).  Spawning stands
  for \<open>pop_bonus\<close> with the random class, colour and position as arguments.
\<close>

datatype game_op =
    Op_frame real
  | Op_new_round
  | Op_start
  | Op_stop
  | Op_remove_avatar nat
  | Op_move nat real
  | Op_print_start nat
  | Op_bonus_off bonus
  | Op_pop_bonus bonus_class string real real

definition BonusManager_pop_bonus ::
  "bonus_class \<Rightarrow> string \<Rightarrow> real \<Rightarrow> real \<Rightarrow> bonus_manager \<Rightarrow> bonus_manager option" where
  "BonusManager_pop_bonus cls col x y m =
     (if bonus_types m \<noteq> []
      then let m = m\<lparr>poping_timeout := True\<rparr>
           in if Collection_count (bonuses m) < bonus_cap \<and> cls \<in> set (bonus_types m)
              then map_option fst (BonusManager_add (Bonus_init cls col x y) m)
              else Some m
      else Some m)"

fun apply_op :: "game_op \<Rightarrow> game \<Rightarrow> game option" where
  "apply_op (Op_frame step) g = Game_update step g"
| "apply_op Op_new_round g = BaseGame_new_round g"
| "apply_op Op_start g = Some (BaseGame_start g)"
| "apply_op Op_stop g = BaseGame_stop g"
| "apply_op (Op_remove_avatar i) g = Game_remove_avatar i g"
| "apply_op (Op_move i f) g =
     (if i < length (avatars g)
      then Game_on_avatar i (\<lambda>a. Some (BaseAvatar_update_angular_velocity (Some f) a)) g
      else Some g)"
| "apply_op (Op_print_start i) g =
     (if i < length (avatars g)
      then Game_on_avatar i (\<lambda>a. Some (PrintManager_start (draw g) a)) (advance g)
      else Some g)"
| "apply_op (Op_bonus_off b) g = Bonus_off b g"
| "apply_op (Op_pop_bonus cls col x y) g =
     map_option (\<lambda>m. g\<lparr>bonus_manager := m\<rparr>) (BonusManager_pop_bonus cls col x y (bonus_manager g))"

fun run :: "game_op list \<Rightarrow> game \<Rightarrow> game option" where
  "run [] g = Some g"
| "run (operation # ops) g =
     (case apply_op operation g of None \<Rightarrow> None | Some g \<Rightarrow> run ops g)"

section \<open>Example states\<close>

text \<open>Concrete states at which the theorems below are instantiated: a world of side 100
  with a single island, avatars fresh from their constructor, and a game in the middle
  of a round.\<close>

definition example_world :: world where
  "example_world =
     \<lparr>w_size = 100, islands = [Island_init (0, 0) 100 0 0], island_size = 100,
      active = True, w_body_count = 0\<rparr>"

definition example_game :: "avatar list \<Rightarrow> game" where
  "example_game avs =
     \<lparr>g_size = 100, world = example_world, avatars = avs, deaths = [],
      game_bonus_stack = [], round_winner = None, game_winner = None,
      death_in_frame = False, started = True, in_round = True, borderless = False,
      max_score = 10,
      bonus_manager =
        \<lparr>bonuses = [], id_counter = 0, bm_world = example_world, bonus_types = [],
         bonus_poping_time = 3000, poping_timeout = False\<rparr>,
      frame_task = True, game_attrs = [], entropy = (\<lambda>k. 0), rand_calls = 0\<rparr>"

section \<open>Auxiliary notions for the proofs\<close>

text \<open>The attributes of an avatar that no setter, no movement and no print-manager
  method touches.\<close>

definition fixed ::
  "avatar \<Rightarrow> nat \<times> string \<times> int \<times> int \<times> bool \<times> bool \<times> bool \<times> int \<times> int \<times> bonus list \<times> bool" where
  "fixed a = (av_id a, player_color a, score a, round_score a, alive a, present a, ready a,
              trail_latency a, body_count a, bonus_stack a, direction_in_loop a)"

text \<open>The relation between the velocity components, the angle and the speed of an
  avatar, and the attributes it is about.\<close>

definition velocity_inv :: "avatar \<Rightarrow> bool" where
  "velocity_inv a \<longleftrightarrow>
     velocity_x a = cos (angle a) * velocity a / 1000
     \<and> velocity_y a = sin (angle a) * velocity a / 1000"

definition motion :: "avatar \<Rightarrow> real \<times> real \<times> real \<times> real" where
  "motion a = (angle a, velocity a, velocity_x a, velocity_y a)"

text \<open>The probe body of \<open>World.get_random_position\<close> as built from the random values
  at positions \<open>k\<close> and \<open>k + 1\<close>:
  \<open>Body(self._get_random_point(margin), self._get_random_point(margin), margin)\<close>.\<close>

definition candidate :: "world \<Rightarrow> (nat \<Rightarrow> real) \<Rightarrow> nat \<Rightarrow> real \<Rightarrow> body" where
  "candidate w rnd k margin =
     Body_init (World_get_random_point w (rnd k) margin)
       (World_get_random_point w (rnd (k + 1)) margin) margin NoData"

section \<open>Verified properties\<close>

subsection \<open>Coordinate compression\<close>

lemma compress_nonneg_round_trip:
  assumes "- (1 / 200) \<le> x"
  shows "compress x = \<lfloor>x * 100 + 1 / 2\<rfloor> \<and> \<bar>decompress (compress x) - x\<bar> \<le> 1 / 200"
proof -
  define n where "n = \<lfloor>x * 100 + 1 / 2\<rfloor>"
  have nn: "0 \<le> 0.5 + x * 100" using assms by simp
  have c: "compress x = n"
    using nn by (simp add: compress_def py_int_def precision_def add.commute n_def)
  have "real_of_int n \<le> x * 100 + 1 / 2" "x * 100 + 1 / 2 < real_of_int n + 1"
    unfolding n_def by linarith+
  then have "\<bar>real_of_int n / 100 - x\<bar> \<le> 1 / 200"
    by linarith
  then show ?thesis using c by (simp add: decompress_def precision_def n_def)
qed

lemma compress_round_trip_any: "\<bar>decompress (compress x) - x\<bar> < 3 / 200"
proof (cases "0 \<le> 0.5 + x * 100")
  case True
  then have "- (1 / 200) \<le> x" by simp
  from compress_nonneg_round_trip[OF this]
  have "\<bar>decompress (compress x) - x\<bar> \<le> 1 / 200" by blast
  then show ?thesis by linarith
next
  case False
  define n where "n = \<lceil>x * 100 + 1 / 2\<rceil>"
  from False have c: "compress x = n"
    by (simp add: compress_def py_int_def precision_def add.commute n_def)
  have "x * 100 + 1 / 2 \<le> real_of_int n" "real_of_int n < x * 100 + 1 / 2 + 1"
    unfolding n_def by linarith+
  then have "\<bar>real_of_int n / 100 - x\<bar> < 3 / 200"
    by linarith
  then show ?thesis using c by (simp add: decompress_def precision_def)
qed

text \<open>
  Claim C8, as stated, fails on the code.  \<open>Compressor.compress\<close> is
  \<open>int(0.5 + value * 100)\<close>, which truncates toward zero instead of rounding: at
  \<open>x = 0.001\<close> it yields \<open>0\<close> where \<open>round(0.5 + x \<sqdot> 100)\<close> is \<open>1\<close>, and at the
  negative value \<open>x = -0.0149\<close> it yields \<open>0\<close>, so that decompression is off by more
  than \<open>1/100\<close>.
\<close>

theorem C8_compress_not_round_counterexample:
  "compress (1 / 1000) \<noteq> round (0.5 + (1 / 1000) * 100 :: real)
   \<and> 1 / 100 < \<bar>decompress (compress (- 149 / 10000)) - (- 149 / 10000)\<bar>"
proof -
  have a: "compress (1 / 1000) = 0"
    by (simp add: compress_def py_int_def precision_def)
  have b: "round (0.5 + (1 / 1000) * 100 :: real) = 1"
    unfolding round_def by (simp add: floor_eq_iff)
  have c: "compress (- 149 / 10000) = 0"
    by (simp add: compress_def py_int_def precision_def ceiling_eq_iff)
  show ?thesis using a b c by (simp add: decompress_def)
qed

text \<open>
  Claim C8, amended: \<open>compress x\<close> is \<open>0.5 + x \<sqdot> 100\<close> truncated toward zero and
  \<open>decompress\<close> divides by 100.  For every \<open>x \<ge> -1/200\<close> (all world coordinates and
  non-negative angles) the compressed value is \<open>x \<sqdot> 100\<close> rounded half up and the round
  trip recovers \<open>x\<close> to within \<open>1/200\<close>, hence within \<open>1/100\<close>; for every \<open>x\<close> whatsoever
  the round trip stays within \<open>3/200\<close>.
\<close>

theorem C8_compress_round_trip:
  "compress x = py_int (1 / 2 + x * 100)
   \<and> decompress (compress x) = real_of_int (compress x) / 100
   \<and> \<bar>decompress (compress x) - x\<bar> < 3 / 200
   \<and> (- (1 / 200) \<le> x \<longrightarrow>
        compress x = \<lfloor>x * 100 + 1 / 2\<rfloor> \<and> \<bar>decompress (compress x) - x\<bar> \<le> 1 / 200)"
proof (intro conjI impI)
  show "compress x = py_int (1 / 2 + x * 100)"
    by (simp add: compress_def precision_def)
  show "decompress (compress x) = real_of_int (compress x) / 100"
    by (simp add: decompress_def precision_def)
  show "\<bar>decompress (compress x) - x\<bar> < 3 / 200"
    by (rule compress_round_trip_any)
next
  assume "- (1 / 200) \<le> x"
  from compress_nonneg_round_trip[OF this]
  show "compress x = \<lfloor>x * 100 + 1 / 2\<rfloor>" "\<bar>decompress (compress x) - x\<bar> \<le> 1 / 200"
    by blast+
qed

theorem C8_compress_round_trip_witness:
  "- (1 / 200) \<le> (1 / 1000 :: real)
   \<and> compress (1 / 1000) = \<lfloor>(1 / 1000) * 100 + 1 / 2 :: real\<rfloor>
   \<and> \<bar>decompress (compress (1 / 1000)) - 1 / 1000\<bar> \<le> 1 / 200"
proof -
  have h: "- (1 / 200) \<le> (1 / 1000 :: real)" by simp
  from C8_compress_round_trip[of "1 / 1000"] h
  have "compress (1 / 1000) = \<lfloor>(1 / 1000) * 100 + 1 / 2 :: real\<rfloor>
        \<and> \<bar>decompress (compress (1 / 1000)) - 1 / 1000\<bar> \<le> 1 / 200"
    by blast
  with h show ?thesis by blast
qed

subsection \<open>Probability of the clearing bonus\<close>

lemma py_round_nonneg: "0 \<le> v \<Longrightarrow> 0 \<le> py_round v"
  by (auto simp: py_round_def Let_def)

lemma py_round_five_halves: "py_round (5 / 2) = 2"
  by (simp add: py_round_def Let_def)



subsection \<open>Self-trail immunity\<close>

text \<open>
  Claim C2.  \<open>AvatarBody.match(other)\<close> is true except when \<open>other\<close> is an \<open>AvatarBody\<close> of
  the same avatar whose number exceeds this body's by at most the trail latency.  In
  the narrow phase \<open>Island.bodies_touch(t, m)\<close> asks the indexed body \<open>t\<close> to match the
  probing body \<open>m\<close>; so for a trail body \<open>t\<close> and the moving body \<open>m\<close> of one avatar with
  latency \<open>l\<close>, there is no contact when the number of \<open>t\<close> lies in \<open>[n - l, n]\<close>, \<open>n\<close> being
  the number of \<open>m\<close>, and contact is decided by the distance alone when it is at most
  \<open>n - l - 1\<close>.  Bodies that are not avatar bodies of one and the same avatar always
  match.  The latency of an avatar is 3, and a body made for an avatar carries the
  avatar's id, latency and current body count.
\<close>

theorem C2_self_trail_immunity:
  "(AvatarBody_match self other \<longleftrightarrow>
      \<not> (is_AvatarBody other \<and> data_equal (b_data self) (b_data other)
         \<and> b_num other - b_num self \<le> data_trail_latency (b_data self)))
   \<and> (b_data t = AvatarData owner l \<and> b_data m = AvatarData owner l' \<longrightarrow>
        (b_num m - l \<le> b_num t \<and> b_num t \<le> b_num m \<longrightarrow> \<not> Island_bodies_touch t m)
      \<and> (b_num t \<le> b_num m - l - 1 \<longrightarrow>
           (Island_bodies_touch t m \<longleftrightarrow>
              get_distance (b_x t) (b_y t) (b_x m) (b_y m) < b_radius t + b_radius m)))
   \<and> (\<not> (is_AvatarBody t \<and> is_AvatarBody m \<and> data_equal (b_data t) (b_data m)) \<longrightarrow>
        match t m
      \<and> (Island_bodies_touch t m \<longleftrightarrow>
           get_distance (b_x t) (b_y t) (b_x m) (b_y m) < b_radius t + b_radius m))
   \<and> trail_latency (Avatar_init pid col) = 3
   \<and> b_data (fst (AvatarBody_init x y a)) = AvatarData (av_id a) (trail_latency a)
   \<and> b_num (fst (AvatarBody_init x y a)) = body_count a"
proof (intro conjI impI)
  show "AvatarBody_match self other \<longleftrightarrow>
      \<not> (is_AvatarBody other \<and> data_equal (b_data self) (b_data other)
         \<and> b_num other - b_num self \<le> data_trail_latency (b_data self))"
    by (auto simp: AvatarBody_match_def)
next
  assume "b_data t = AvatarData owner l \<and> b_data m = AvatarData owner l'"
    and "b_num m - l \<le> b_num t \<and> b_num t \<le> b_num m"
  then show "\<not> Island_bodies_touch t m"
    by (auto simp: Island_bodies_touch_def match_def AvatarBody_match_def is_AvatarBody_def Let_def)
next
  assume "b_data t = AvatarData owner l \<and> b_data m = AvatarData owner l'"
    and "b_num t \<le> b_num m - l - 1"
  then show "Island_bodies_touch t m \<longleftrightarrow>
     get_distance (b_x t) (b_y t) (b_x m) (b_y m) < b_radius t + b_radius m"
    by (auto simp: Island_bodies_touch_def match_def AvatarBody_match_def is_AvatarBody_def Let_def)
next
  assume h: "\<not> (is_AvatarBody t \<and> is_AvatarBody m \<and> data_equal (b_data t) (b_data m))"
  then show "match t m"
    by (auto simp: match_def AvatarBody_match_def Body_match_def)
  from h show "Island_bodies_touch t m \<longleftrightarrow>
     get_distance (b_x t) (b_y t) (b_x m) (b_y m) < b_radius t + b_radius m"
    by (auto simp: Island_bodies_touch_def match_def AvatarBody_match_def Body_match_def Let_def)
next
  show "trail_latency (Avatar_init pid col) = 3"
    by (simp add: Avatar_init_def AvatarBody_init_def DEFAULT_TRAIL_LATENCY_def Let_def)
  show "b_data (fst (AvatarBody_init x y a)) = AvatarData (av_id a) (trail_latency a)"
    by (simp add: AvatarBody_init_def Body_init_def)
  show "b_num (fst (AvatarBody_init x y a)) = body_count a"
    by (simp add: AvatarBody_init_def Body_init_def)
qed

theorem C2_self_trail_immunity_witness:
  "b_data (fst (AvatarBody_init 10 10 ((Avatar_init 1 ''a'')\<lparr>body_count := 5\<rparr>))) = AvatarData 1 3
   \<and> b_data (body (Avatar_set_position 10 10 ((Avatar_init 1 ''a'')\<lparr>body_count := 7\<rparr>)))
       = AvatarData 1 3
   \<and> \<not> Island_bodies_touch
         (fst (AvatarBody_init 10 10 ((Avatar_init 1 ''a'')\<lparr>body_count := 5\<rparr>)))
         (body (Avatar_set_position 10 10 ((Avatar_init 1 ''a'')\<lparr>body_count := 7\<rparr>)))
   \<and> Island_bodies_touch
         (fst (AvatarBody_init 10 10 ((Avatar_init 1 ''a'')\<lparr>body_count := 3\<rparr>)))
         (body (Avatar_set_position 10 10 ((Avatar_init 1 ''a'')\<lparr>body_count := 7\<rparr>)))
   \<and> Island_bodies_touch
         (fst (AvatarBody_init 10 10 ((Avatar_init 2 ''b'')\<lparr>body_count := 7\<rparr>)))
         (body (Avatar_set_position 10 10 ((Avatar_init 1 ''a'')\<lparr>body_count := 7\<rparr>)))"
proof -
  let ?m = "body (Avatar_set_position 10 10 ((Avatar_init 1 ''a'')\<lparr>body_count := 7\<rparr>))"
  let ?t5 = "fst (AvatarBody_init 10 10 ((Avatar_init 1 ''a'')\<lparr>body_count := 5\<rparr>))"
  let ?t3 = "fst (AvatarBody_init 10 10 ((Avatar_init 1 ''a'')\<lparr>body_count := 3\<rparr>))"
  let ?o = "fst (AvatarBody_init 10 10 ((Avatar_init 2 ''b'')\<lparr>body_count := 7\<rparr>))"
  have m: "b_data ?m = AvatarData 1 3" "b_num ?m = 7" "b_x ?m = 10" "b_y ?m = 10"
    "b_radius ?m = 0.6"
    by (simp_all add: Avatar_set_position_def BaseAvatar_set_position_def Avatar_init_def
        AvatarBody_init_def Body_init_def Let_def DEFAULT_TRAIL_LATENCY_def DEFAULT_RADIUS_def)
  have t5: "b_data ?t5 = AvatarData 1 3" "b_num ?t5 = 5"
    by (simp_all add: Avatar_init_def AvatarBody_init_def Body_init_def Let_def
        DEFAULT_TRAIL_LATENCY_def)
  have t3: "b_data ?t3 = AvatarData 1 3" "b_num ?t3 = 3" "b_x ?t3 = 10" "b_y ?t3 = 10"
    "b_radius ?t3 = 0.6"
    by (simp_all add: Avatar_init_def AvatarBody_init_def Body_init_def Let_def
        DEFAULT_TRAIL_LATENCY_def DEFAULT_RADIUS_def)
  have o: "b_data ?o = AvatarData 2 3" "b_x ?o = 10" "b_y ?o = 10" "b_radius ?o = 0.6"
    by (simp_all add: Avatar_init_def AvatarBody_init_def Body_init_def Let_def
        DEFAULT_TRAIL_LATENCY_def DEFAULT_RADIUS_def)
  have near: "\<not> Island_bodies_touch ?t5 ?m"
    using C2_self_trail_immunity[of _ _ ?t5 1 3 ?m 3] m t5 by simp
  have far: "Island_bodies_touch ?t3 ?m"
    using C2_self_trail_immunity[of _ _ ?t3 1 3 ?m 3] m t3 by (simp add: get_distance_def)
  have other: "Island_bodies_touch ?o ?m"
    using C2_self_trail_immunity[of _ _ ?o _ _ ?m] m o by (simp add: get_distance_def)
  show ?thesis using m(1) t5(1) near far other by blast
qed

subsection \<open>Score resolution at the end of a round\<close>

lemma first_alive_Some:
  "first_alive xs = Some w \<longleftrightarrow> w < length xs \<and> alive (xs ! w) \<and> (\<forall>j<w. \<not> alive (xs ! j))"
proof (induction xs arbitrary: w)
  case Nil
  then show ?case by simp
next
  case (Cons a xs)
  show ?case
  proof (cases "alive a")
    case True
    then show ?thesis by (cases w) auto
  next
    case False
    show ?thesis
    proof (cases w)
      case 0
      then show ?thesis using False by auto
    next
      case (Suc k)
      then show ?thesis using False Cons.IH[of k]
        by (auto simp: less_Suc_eq_0_disj nth_Cons')
    qed
  qed
qed

text \<open>
  Claim C4.  When exactly one avatar of the game is alive, \<open>Game.resolve_scores\<close> marks
  it as round winner and adds \<open>max(playerCount - 1, 1)\<close> to its round score; then every
  avatar has its round score added to its score and reset to 0.  Hence the survivor's
  score grows by its round score plus the award, and every other avatar's by its round
  score only.
\<close>

theorem C4_resolve_scores:
  assumes "w < length (avatars g)" and "alive (avatars g ! w)"
    and "\<forall>j < length (avatars g). j \<noteq> w \<longrightarrow> \<not> alive (avatars g ! j)"
  shows "round_winner (Game_resolve_scores g) = Some w
    \<and> length (avatars (Game_resolve_scores g)) = length (avatars g)
    \<and> (\<forall>j < length (avatars g).
          round_score (avatars (Game_resolve_scores g) ! j) = 0
          \<and> score (avatars (Game_resolve_scores g) ! j)
              = score (avatars g ! j) + round_score (avatars g ! j)
                + (if j = w then max (Collection_count (avatars g) - 1) 1 else 0))"
proof -
  have fa: "first_alive (avatars g) = Some w"
    using assms by (auto simp: first_alive_Some)
  have win: "(if Collection_count (avatars g) = 1 then (if avatars g = [] then None else Some 0)
         else first_alive (avatars g)) = Some w"
    using fa assms(1) by (auto simp: Collection_count_def)
  show ?thesis
    unfolding Game_resolve_scores_def Let_def win
    using assms(1)
    by (auto simp: Collection_count_def BaseAvatar_resolve_score_def BaseAvatar_add_score_def
        Avatar_set_score_def Avatar_set_round_score_def nth_list_update)
qed

theorem C4_resolve_scores_witness:
  "round_winner (Game_resolve_scores (example_game
       [(Avatar_init 1 ''a'')\<lparr>alive := False, round_score := 0\<rparr>,
        (Avatar_init 2 ''b'')\<lparr>round_score := 1, score := 4\<rparr>,
        (Avatar_init 3 ''c'')\<lparr>alive := False, round_score := 1, score := 2\<rparr>])) = Some 1
   \<and> score (avatars (Game_resolve_scores (example_game
       [(Avatar_init 1 ''a'')\<lparr>alive := False, round_score := 0\<rparr>,
        (Avatar_init 2 ''b'')\<lparr>round_score := 1, score := 4\<rparr>,
        (Avatar_init 3 ''c'')\<lparr>alive := False, round_score := 1, score := 2\<rparr>])) ! 1) = 7
   \<and> score (avatars (Game_resolve_scores (example_game
       [(Avatar_init 1 ''a'')\<lparr>alive := False, round_score := 0\<rparr>,
        (Avatar_init 2 ''b'')\<lparr>round_score := 1, score := 4\<rparr>,
        (Avatar_init 3 ''c'')\<lparr>alive := False, round_score := 1, score := 2\<rparr>])) ! 2) = 3
   \<and> round_score (avatars (Game_resolve_scores (example_game
       [(Avatar_init 1 ''a'')\<lparr>alive := False, round_score := 0\<rparr>,
        (Avatar_init 2 ''b'')\<lparr>round_score := 1, score := 4\<rparr>,
        (Avatar_init 3 ''c'')\<lparr>alive := False, round_score := 1, score := 2\<rparr>])) ! 1) = 0"
proof -
  let ?g = "example_game
       [(Avatar_init 1 ''a'')\<lparr>alive := False, round_score := 0\<rparr>,
        (Avatar_init 2 ''b'')\<lparr>round_score := 1, score := 4\<rparr>,
        (Avatar_init 3 ''c'')\<lparr>alive := False, round_score := 1, score := 2\<rparr>]"
  have h1: "1 < length (avatars ?g)" by (simp add: example_game_def)
  have h2: "alive (avatars ?g ! 1)"
    by (simp add: example_game_def Avatar_init_def AvatarBody_init_def Let_def)
  have h3: "\<forall>j < length (avatars ?g). j \<noteq> 1 \<longrightarrow> \<not> alive (avatars ?g ! j)"
    by (simp add: example_game_def less_Suc_eq numeral_3_eq_3 Avatar_init_def
        AvatarBody_init_def Let_def)
  note r = C4_resolve_scores[OF h1 h2 h3]
  have sc: "score (avatars ?g ! 1) = 4" "score (avatars ?g ! 2) = 2"
    "round_score (avatars ?g ! 1) = 1" "round_score (avatars ?g ! 2) = 1"
    by (simp_all add: example_game_def Avatar_init_def AvatarBody_init_def Let_def)
  have lt: "2 < length (avatars ?g)" by (simp add: example_game_def)
  have cnt: "Collection_count (avatars ?g) = 3" by (simp add: example_game_def Collection_count_def)
  from r have w: "round_winner (Game_resolve_scores ?g) = Some 1" by blast
  from r h1 have s1: "score (avatars (Game_resolve_scores ?g) ! 1) = 7"
    and r1: "round_score (avatars (Game_resolve_scores ?g) ! 1) = 0"
    using sc cnt by auto
  from r lt have s2: "score (avatars (Game_resolve_scores ?g) ! 2) = 3"
    using sc cnt by auto
  from w s1 s2 r1 show ?thesis by blast
qed

subsection \<open>Attributes untouched by the avatar's setters\<close>

lemma fixedD:
  assumes "fixed a' = fixed a"
  shows "av_id a' = av_id a" "player_color a' = player_color a" "score a' = score a"
    "round_score a' = round_score a" "alive a' = alive a" "present a' = present a"
    "ready a' = ready a" "trail_latency a' = trail_latency a" "body_count a' = body_count a"
    "bonus_stack a' = bonus_stack a" "direction_in_loop a' = direction_in_loop a"
  using assms by (simp_all add: fixed_def)

lemma fixed_set_position [simp]: "fixed (Avatar_set_position x y a) = fixed a"
  by (simp add: fixed_def Avatar_set_position_def BaseAvatar_set_position_def Let_def)

lemma fixed_add_point [simp]: "fixed (Avatar_add_point x y a) = fixed a"
  by (simp add: fixed_def Avatar_add_point_def BaseAvatar_add_point_def Let_def)

lemma fixed_set_angular_velocity [simp]: "fixed (Avatar_set_angular_velocity w a) = fixed a"
  by (simp add: fixed_def Avatar_set_angular_velocity_def BaseAvatar_set_angular_velocity_def)

lemma fixed_update_angular_velocity [simp]:
  "fixed (BaseAvatar_update_angular_velocity f a) = fixed a"
  by (simp add: BaseAvatar_update_angular_velocity_def Let_def split: option.split)

lemma fixed_update_base_angular_velocity [simp]:
  "fixed (BaseAvatar_update_base_angular_velocity a) = fixed a"
  by (simp add: BaseAvatar_update_base_angular_velocity_def Let_def) (simp add: fixed_def)

lemma fixed_update_velocities [simp]: "fixed (BaseAvatar_update_velocities a) = fixed a"
  by (simp add: BaseAvatar_update_velocities_def Let_def) (simp add: fixed_def)

lemma fixed_set_angle [simp]: "fixed (Avatar_set_angle ang a) = fixed a"
  by (simp add: Avatar_set_angle_def BaseAvatar_set_angle_def) (simp add: fixed_def)

lemma fixed_set_velocity [simp]: "fixed (Avatar_set_velocity v a) = fixed a"
  by (simp add: Avatar_set_velocity_def BaseAvatar_set_velocity_def Let_def) (simp add: fixed_def)

lemma fixed_set_radius [simp]: "fixed (Avatar_set_radius r a) = fixed a"
  by (simp add: fixed_def Avatar_set_radius_def BaseAvatar_set_radius_def Let_def)

lemma fixed_set_inverse [simp]: "fixed (Avatar_set_inverse f a) = fixed a"
  by (simp add: Avatar_set_inverse_def BaseAvatar_set_inverse_def) (simp add: fixed_def)

lemma fixed_set_invincible [simp]: "fixed (Avatar_set_invincible f a) = fixed a"
  by (simp add: fixed_def Avatar_set_invincible_def BaseAvatar_set_invincible_def)

lemma fixed_set_color [simp]: "fixed (Avatar_set_color c a) = fixed a"
  by (simp add: fixed_def Avatar_set_color_def)

lemma fixed_update_angle [simp]: "fixed (BaseAvatar_update_angle step a) = fixed a"
  by (simp add: BaseAvatar_update_angle_def)

lemma fixed_update_position [simp]: "fixed (BaseAvatar_update_position step a) = fixed a"
  by (simp add: BaseAvatar_update_position_def)

lemma fixed_update [simp]: "fixed (Avatar_update step a) = fixed a"
  by (simp add: Avatar_update_def Let_def)

lemma fixed_set_printing [simp]: "fixed (Avatar_set_printing p a) = fixed a"
  by (simp add: Avatar_set_printing_def BaseAvatar_set_printing_def Let_def)
     (simp add: fixed_def Avatar_add_point_def BaseAvatar_add_point_def Let_def)

lemma fixed_pm_set_printing [simp]: "fixed (PrintManager_set_printing u p a) = fixed a"
proof -
  have "fixed (PrintManager_set_printing u p a) = fixed (Avatar_set_printing p a)"
    by (simp add: PrintManager_set_printing_def Let_def fixed_def)
  then show ?thesis by simp
qed

lemma fixed_pm_toggle [simp]: "fixed (PrintManager_toggle_printing u a) = fixed a"
  by (simp add: PrintManager_toggle_printing_def)

lemma fixed_print_manager_update [simp]: "fixed (a\<lparr>print_manager := pm\<rparr>) = fixed a"
  by (simp add: fixed_def)

lemma fixed_pm_start [simp]: "fixed (PrintManager_start u a) = fixed a"
  by (simp add: PrintManager_start_def)

lemma fixed_pm_clear [simp]: "fixed (PrintManager_clear a) = fixed a"
  by (simp add: PrintManager_clear_def)

lemma fixed_pm_stop [simp]: "fixed (PrintManager_stop u a) = fixed a"
  by (simp add: PrintManager_stop_def)

lemma fixed_pm_test [simp]: "fixed (PrintManager_test u a) = fixed a"
  by (simp add: PrintManager_test_def Let_def)

lemma fixed_stack_apply_base [simp]: "fixed (BaseBonusStack_apply prop v a) = fixed a"
  by (simp add: fixed_def BaseBonusStack_apply_def)

lemma fixed_stack_apply:
  "BonusStack_apply u prop v a = Some a' \<Longrightarrow> fixed a' = fixed a"
  by (auto simp: BonusStack_apply_def split: if_splits py_value.splits)

lemma fixed_apply_properties:
  "apply_properties (BonusStack_apply u) ps a = Some a' \<Longrightarrow> fixed a' = fixed a"
proof (induction ps arbitrary: a)
  case Nil
  then show ?case by simp
next
  case (Cons pv ps)
  then show ?case
    by (auto split: option.splits dest!: fixed_stack_apply)
qed


subsection \<open>Bonus stack: adding then removing a bonus\<close>


lemma map_of_dict_set [simp]:
  "map_of (dict_set kvs k v) k' = (if k' = k then Some v else map_of kvs k')"
  by (induction kvs) auto

lemmas avatar_setters =
  Avatar_set_radius_def BaseAvatar_set_radius_def Avatar_set_velocity_def BaseAvatar_set_velocity_def
  BaseAvatar_update_velocities_def BaseAvatar_update_base_angular_velocity_def
  BaseAvatar_update_angular_velocity_def Avatar_set_angular_velocity_def
  BaseAvatar_set_angular_velocity_def Avatar_set_inverse_def BaseAvatar_set_inverse_def
  Avatar_set_invincible_def BaseAvatar_set_invincible_def Avatar_set_color_def
  BaseBonusStack_apply_def

lemmas avatar_defaults =
  DEFAULT_VELOCITY_def DEFAULT_RADIUS_def DEFAULT_INVERSE_def DEFAULT_INVINCIBLE_def
  DEFAULT_DIRECTION_IN_LOOP_def DEFAULT_ANGULAR_VELOCITY_BASE_def

lemmas stack_defs =
  BonusStack_add_def BonusStack_remove_def Collection_add_def
  Collection_remove_def Collection_exists_def BonusStack_resolve_def resolve_properties_def
  resolve_removed_def get_effects_def BonusStack_append_def BaseBonusStack_append_def
  BonusStack_get_default_property_def BonusStack_apply_def

lemma set_default_velocity:
  "velocity (Avatar_set_velocity DEFAULT_VELOCITY x) = DEFAULT_VELOCITY"
  "velocity x \<noteq> DEFAULT_VELOCITY \<Longrightarrow> direction_in_loop x \<Longrightarrow>
     angular_velocity_base (Avatar_set_velocity DEFAULT_VELOCITY x) = DEFAULT_ANGULAR_VELOCITY_BASE"
  by (simp_all add: avatar_setters avatar_defaults Let_def)

lemma set_default_radius:
  "radius (Avatar_set_radius DEFAULT_RADIUS x) = DEFAULT_RADIUS"
  "angular_velocity_base (Avatar_set_radius r x) = angular_velocity_base x"
  by (simp_all add: avatar_setters avatar_defaults Let_def)

lemma set_inverse_fields:
  "av_inverse (Avatar_set_inverse f x) = f"
  "angular_velocity_base (Avatar_set_inverse f x) = angular_velocity_base x"
  by (simp_all add: avatar_setters Let_def)

lemma set_invincible_fields:
  "invincible (Avatar_set_invincible f x) = f"
  "angular_velocity_base (Avatar_set_invincible f x) = angular_velocity_base x"
  by (simp_all add: avatar_setters)

lemma set_color_fields:
  "color (Avatar_set_color c x) = c"
  "player_color (Avatar_set_color c x) = player_color x"
  "angular_velocity_base (Avatar_set_color c x) = angular_velocity_base x"
  by (simp_all add: avatar_setters)

lemma setattr_fields:
  "attrs (BaseBonusStack_apply p v x) = dict_set (attrs x) p v"
  "player_color (BaseBonusStack_apply p v x) = player_color x"
  "angular_velocity_base (BaseBonusStack_apply p v x) = angular_velocity_base x"
  by (simp_all add: avatar_setters)

lemma add_result:
  assumes "bonus_stack a = []"
  shows "\<exists>a1. BonusStack_add u b a = Some a1 \<and> bonus_stack a1 = [b]
     \<and> direction_in_loop a1 = direction_in_loop a
     \<and> (''velocity'' \<notin> fst ` set (get_effects b) \<longrightarrow> angular_velocity_base a1 = angular_velocity_base a)
     \<and> (''velocity'' \<in> fst ` set (get_effects b) \<longrightarrow> velocity a1 \<noteq> DEFAULT_VELOCITY)"
  using assms
  by (cases "bonus_class b")
     (simp_all add: stack_defs avatar_setters avatar_defaults Let_def)

lemma remove_eq:
  assumes "bonus_stack a1 = [b]"
  shows "BonusStack_remove u' b a1 =
     apply_properties (BonusStack_apply u')
       (map (\<lambda>e. (fst e, BonusStack_get_default_property a1 (fst e))) (get_effects b))
       (a1\<lparr>bonus_stack := []\<rparr>)"
  using assms
  by (cases "bonus_class b")
     (simp_all add: BonusStack_remove_def Collection_remove_def Collection_exists_def
        BonusStack_resolve_def resolve_properties_def resolve_removed_def get_effects_def
        BonusStack_get_default_property_def)

lemma remove_result:
  assumes "bonus_stack a1 = [b]"
  shows "\<exists>a2. BonusStack_remove u' b a1 = Some a2 \<and> bonus_stack a2 = []
     \<and> (''velocity'' \<in> fst ` set (get_effects b) \<longrightarrow> velocity a2 = DEFAULT_VELOCITY)
     \<and> (''radius'' \<in> fst ` set (get_effects b) \<longrightarrow> radius a2 = DEFAULT_RADIUS)
     \<and> (''inverse'' \<in> fst ` set (get_effects b) \<longrightarrow> av_inverse a2 = False)
     \<and> (''invincible'' \<in> fst ` set (get_effects b) \<longrightarrow> invincible a2 = False)
     \<and> (''color'' \<in> fst ` set (get_effects b) \<longrightarrow> color a2 = player_color a2)
     \<and> (\<forall>p \<in> fst ` set (get_effects b).
           p \<in> {''directionInLoop'', ''angularVelocityBase''} \<longrightarrow>
           map_of (attrs a2) p = Some (BonusStack_get_default_property a2 p))
     \<and> direction_in_loop a2 = direction_in_loop a1
     \<and> (''velocity'' \<notin> fst ` set (get_effects b) \<longrightarrow>
          angular_velocity_base a2 = angular_velocity_base a1)
     \<and> (''velocity'' \<in> fst ` set (get_effects b) \<and> direction_in_loop a1
          \<and> velocity a1 \<noteq> DEFAULT_VELOCITY \<longrightarrow>
          angular_velocity_base a2 = DEFAULT_ANGULAR_VELOCITY_BASE)"
  unfolding remove_eq[OF assms]
  by (cases "bonus_class b")
     (simp_all add: get_effects_def BonusStack_get_default_property_def BonusStack_apply_def
        set_default_velocity set_default_radius set_inverse_fields set_invincible_fields
        set_color_fields setattr_fields fixedD[OF fixed_set_velocity]
        fixedD[OF fixed_set_radius] fixedD[OF fixed_set_inverse] fixedD[OF fixed_set_invincible]
        fixedD[OF fixed_set_color] fixedD[OF fixed_stack_apply_base])



lemma add_fast_velocity:
  assumes "bonus_stack a = []" "bonus_class b = BonusSelfFast"
  shows "\<exists>a1. BonusStack_add u b a = Some a1 \<and> velocity a1 = 24"
  using assms by (simp add: stack_defs avatar_setters avatar_defaults Let_def)


subsection \<open>Velocity components\<close>

lemma velocity_inv_motion: "motion a' = motion a \<Longrightarrow> velocity_inv a' = velocity_inv a"
  by (simp add: motion_def velocity_inv_def)

lemma motion_set_position [simp]: "motion (Avatar_set_position x y a) = motion a"
  by (simp add: motion_def Avatar_set_position_def BaseAvatar_set_position_def Let_def)

lemma motion_add_point [simp]: "motion (Avatar_add_point x y a) = motion a"
  by (simp add: motion_def Avatar_add_point_def BaseAvatar_add_point_def Let_def)

lemma motion_set_angular_velocity [simp]: "motion (Avatar_set_angular_velocity w a) = motion a"
  by (simp add: motion_def Avatar_set_angular_velocity_def BaseAvatar_set_angular_velocity_def)

lemma motion_update_angular_velocity [simp]:
  "motion (BaseAvatar_update_angular_velocity f a) = motion a"
  by (simp add: BaseAvatar_update_angular_velocity_def Let_def split: option.split)

lemma motion_update_base_angular_velocity [simp]:
  "motion (BaseAvatar_update_base_angular_velocity a) = motion a"
  by (simp add: BaseAvatar_update_base_angular_velocity_def Let_def) (simp add: motion_def)

lemma velocity_inv_update_velocities [simp]: "velocity_inv (BaseAvatar_update_velocities a)"
proof -
  have "velocity_inv (a\<lparr>velocity_x := cos (angle a) * (velocity a / 1000),
                         velocity_y := sin (angle a) * (velocity a / 1000)\<rparr>)"
    by (simp add: velocity_inv_def)
  then show ?thesis
    by (simp add: BaseAvatar_update_velocities_def Let_def
        velocity_inv_motion[OF motion_update_base_angular_velocity])
qed

lemma velocity_inv_set_angle [simp]: "velocity_inv a \<Longrightarrow> velocity_inv (Avatar_set_angle ang a)"
  by (simp add: Avatar_set_angle_def BaseAvatar_set_angle_def)

lemma velocity_inv_set_angle_changed:
  "angle a \<noteq> ang \<Longrightarrow> velocity_inv (Avatar_set_angle ang a)"
  by (simp add: Avatar_set_angle_def BaseAvatar_set_angle_def)

lemma velocity_inv_set_velocity [simp]:
  "velocity_inv a \<Longrightarrow> velocity_inv (Avatar_set_velocity v a)"
  by (simp add: Avatar_set_velocity_def BaseAvatar_set_velocity_def Let_def)

lemma motion_set_radius [simp]: "motion (Avatar_set_radius r a) = motion a"
  by (simp add: motion_def Avatar_set_radius_def BaseAvatar_set_radius_def Let_def)

lemma motion_set_inverse [simp]: "motion (Avatar_set_inverse f a) = motion a"
  by (simp add: Avatar_set_inverse_def BaseAvatar_set_inverse_def) (simp add: motion_def)

lemma motion_set_invincible [simp]: "motion (Avatar_set_invincible f a) = motion a"
  by (simp add: motion_def Avatar_set_invincible_def BaseAvatar_set_invincible_def)

lemma motion_set_color [simp]: "motion (Avatar_set_color c a) = motion a"
  by (simp add: motion_def Avatar_set_color_def)

lemma velocity_inv_update_angle [simp]:
  "velocity_inv a \<Longrightarrow> velocity_inv (BaseAvatar_update_angle step a)"
  by (simp add: BaseAvatar_update_angle_def velocity_inv_motion[OF motion_update_angular_velocity])

lemma velocity_inv_update_position [simp]:
  "velocity_inv (BaseAvatar_update_position step a) = velocity_inv a"
  by (simp add: BaseAvatar_update_position_def velocity_inv_motion[OF motion_set_position])

lemma velocity_inv_update [simp]: "velocity_inv a \<Longrightarrow> velocity_inv (Avatar_update step a)"
  by (simp add: Avatar_update_def Let_def velocity_inv_motion[OF motion_add_point])

lemma motion_set_printing [simp]: "motion (Avatar_set_printing p a) = motion a"
  by (simp add: Avatar_set_printing_def BaseAvatar_set_printing_def Let_def)
     (simp add: motion_def Avatar_add_point_def BaseAvatar_add_point_def Let_def)

lemma motion_print_manager_update [simp]: "motion (a\<lparr>print_manager := pm\<rparr>) = motion a"
  by (simp add: motion_def)

lemma motion_pm_set_printing [simp]: "motion (PrintManager_set_printing u p a) = motion a"
  by (simp add: PrintManager_set_printing_def Let_def)

lemma motion_pm_start [simp]: "motion (PrintManager_start u a) = motion a"
  by (simp add: PrintManager_start_def)

lemma motion_pm_stop [simp]: "motion (PrintManager_stop u a) = motion a"
  by (simp add: PrintManager_stop_def PrintManager_clear_def)

lemma motion_pm_test [simp]: "motion (PrintManager_test u a) = motion a"
  by (simp add: PrintManager_test_def PrintManager_toggle_printing_def Let_def)

lemma motion_setattr [simp]: "motion (BaseBonusStack_apply prop v a) = motion a"
  by (simp add: motion_def BaseBonusStack_apply_def)

lemma motion_bonus_stack_update [simp]: "motion (a\<lparr>bonus_stack := bs\<rparr>) = motion a"
  by (simp add: motion_def)

lemma velocity_inv_stack_apply:
  "BonusStack_apply u prop v a = Some a' \<Longrightarrow> velocity_inv a \<Longrightarrow> velocity_inv a'"
  by (auto simp: BonusStack_apply_def velocity_inv_motion[OF motion_set_radius]
      velocity_inv_motion[OF motion_set_inverse] velocity_inv_motion[OF motion_set_invincible]
      velocity_inv_motion[OF motion_set_color] velocity_inv_motion[OF motion_pm_start]
      velocity_inv_motion[OF motion_pm_stop] velocity_inv_motion[OF motion_setattr]
      split: if_splits py_value.splits)

lemma velocity_inv_apply_properties:
  "apply_properties (BonusStack_apply u) ps a = Some a' \<Longrightarrow> velocity_inv a \<Longrightarrow> velocity_inv a'"
proof (induction ps arbitrary: a)
  case Nil
  then show ?case by simp
next
  case (Cons pv ps)
  then show ?case
    by (auto split: option.splits dest: velocity_inv_stack_apply)
qed

lemma velocity_inv_resolve:
  "BonusStack_resolve u removed a = Some a' \<Longrightarrow> velocity_inv a \<Longrightarrow> velocity_inv a'"
  by (auto simp: BonusStack_resolve_def split: option.splits dest: velocity_inv_apply_properties)

lemma velocity_inv_stack_add:
  "BonusStack_add u b a = Some a' \<Longrightarrow> velocity_inv a \<Longrightarrow> velocity_inv a'"
  by (auto simp: BonusStack_add_def velocity_inv_motion[OF motion_bonus_stack_update]
      split: prod.splits bool.splits dest!: velocity_inv_resolve)

lemma velocity_inv_stack_remove:
  "BonusStack_remove u b a = Some a' \<Longrightarrow> velocity_inv a \<Longrightarrow> velocity_inv a'"
  by (auto simp: BonusStack_remove_def velocity_inv_motion[OF motion_bonus_stack_update]
      split: prod.splits bool.splits dest!: velocity_inv_resolve)

lemma velocity_inv_speed:
  assumes "velocity_inv a" "0 \<le> velocity a"
  shows "sqrt ((velocity_x a)\<^sup>2 + (velocity_y a)\<^sup>2) * 1000 = velocity a"
proof -
  define c where "c = cos (angle a)"
  define s where "s = sin (angle a)"
  define v where "v = velocity a / 1000"
  have cs: "c\<^sup>2 + s\<^sup>2 = 1" by (simp add: c_def s_def)
  have vx: "velocity_x a = c * v" and vy: "velocity_y a = s * v"
    using assms(1) by (simp_all add: velocity_inv_def c_def s_def v_def)
  have "(velocity_x a)\<^sup>2 + (velocity_y a)\<^sup>2 = v\<^sup>2 * (c\<^sup>2 + s\<^sup>2)"
    unfolding vx vy by (simp add: power_mult_distrib distrib_left mult.commute)
  also have "\<dots> = v\<^sup>2" by (simp add: cs)
  finally have "sqrt ((velocity_x a)\<^sup>2 + (velocity_y a)\<^sup>2) = \<bar>v\<bar>"
    by (simp only: real_sqrt_abs)
  moreover have "0 \<le> v" using assms(2) by (simp add: v_def)
  ultimately show ?thesis by (simp add: v_def)
qed

lemma motion_clear:
  "motion (Avatar_clear u a) = (0, DEFAULT_VELOCITY, 0, 0)"
proof -
  have "motion (Avatar_clear u a) = motion (PrintManager_stop u (BaseAvatar_clear a))"
    by (simp add: Avatar_clear_def motion_def)
  also have "\<dots> = motion (BaseAvatar_clear a)" by simp
  also have "\<dots> = (0, DEFAULT_VELOCITY, 0, 0)"
    by (simp add: BaseAvatar_clear_def BaseBonusStack_clear_def motion_def Let_def)
  finally show ?thesis .
qed

lemma update_velocities_keeps:
  "angle (BaseAvatar_update_velocities a) = angle a"
  "velocity (BaseAvatar_update_velocities a) = velocity a"
proof -
  let ?a = "a\<lparr>velocity_x := cos (angle a) * (velocity a / 1000),
              velocity_y := sin (angle a) * (velocity a / 1000)\<rparr>"
  have "motion (BaseAvatar_update_velocities a) = motion ?a"
    by (simp add: BaseAvatar_update_velocities_def Let_def)
  then show "angle (BaseAvatar_update_velocities a) = angle a"
    "velocity (BaseAvatar_update_velocities a) = velocity a"
    by (simp_all add: motion_def)
qed




subsection \<open>Random placement\<close>

lemma World_test_body_by_point_total:
  "island_size w \<noteq> 0 \<Longrightarrow> World_test_body_by_point w b x y \<noteq> None"
  by (cases "index_of i_id (py_int (x / island_size w), py_int (y / island_size w)) (islands w)")
     (simp_all add: World_test_body_by_point_def World_get_island_by_point_def
        World_island_index_def)

lemma all_free_total:
  "island_size w \<noteq> 0 \<Longrightarrow> all_free w b ps \<noteq> None"
proof (induction ps)
  case Nil
  then show ?case by simp
next
  case (Cons p ps)
  from World_test_body_by_point_total[OF Cons.prems, of b "fst p" "snd p"]
  obtain f where "World_test_body_by_point w b (fst p) (snd p) = Some f" by auto
  with Cons show ?case by (cases f) auto
qed

lemma World_test_body_total:
  "island_size w \<noteq> 0 \<Longrightarrow> \<exists>f. World_test_body w b = Some f"
  using all_free_total[of w b "corners b"] by (auto simp: World_test_body_def)

lemma candidate_resample:
  "(candidate w rnd k margin)\<lparr>b_x := World_get_random_point w (rnd k') margin,
        b_y := World_get_random_point w (rnd (k' + 1)) margin\<rparr> = candidate w rnd k' margin"
  by (simp add: candidate_def Body_init_def)

lemma position_loop_result:
  assumes "island_size w \<noteq> 0" "a \<le> 1000"
  shows "\<exists>n. a \<le> n \<and> n \<le> 1000
     \<and> position_loop w rnd margin (k + 2 * (a + 1)) a (candidate w rnd (k + 2 * a) margin)
         = Some (candidate w rnd (k + 2 * n) margin, k + 2 * (n + 1))
     \<and> (\<forall>j. a \<le> j \<and> j < n \<longrightarrow> World_test_body w (candidate w rnd (k + 2 * j) margin) = Some False)
     \<and> (n < 1000 \<longrightarrow> World_test_body w (candidate w rnd (k + 2 * n) margin) = Some True)"
  using assms(2)
proof (induction "1000 - a" arbitrary: a)
  case 0
  then have nlt: "\<not> a < 1000" by simp
  from World_test_body_total[OF assms(1)] obtain f where
    f: "World_test_body w (candidate w rnd (k + 2 * a) margin) = Some f" by blast
  have r: "position_loop w rnd margin (k + 2 * (a + 1)) a (candidate w rnd (k + 2 * a) margin)
         = Some (candidate w rnd (k + 2 * a) margin, k + 2 * (a + 1))"
    by (subst position_loop.simps) (simp add: f nlt)
  show ?case
  proof (intro exI[of _ a] conjI allI impI)
    show "a \<le> a" by simp
    show "a \<le> 1000" by (rule "0.prems")
    show "position_loop w rnd margin (k + 2 * (a + 1)) a (candidate w rnd (k + 2 * a) margin)
         = Some (candidate w rnd (k + 2 * a) margin, k + 2 * (a + 1))" by (rule r)
    show "World_test_body w (candidate w rnd (k + 2 * j) margin) = Some False"
      if "a \<le> j \<and> j < a" for j using that by auto
    show "World_test_body w (candidate w rnd (k + 2 * a) margin) = Some True" if "a < 1000"
      using that nlt by simp
  qed
next
  case (Suc m)
  then have lt: "a < 1000" by simp
  from World_test_body_total[OF assms(1)] obtain f where
    f: "World_test_body w (candidate w rnd (k + 2 * a) margin) = Some f" by blast
  show ?case
  proof (cases f)
    case True
    have r: "position_loop w rnd margin (k + 2 * (a + 1)) a (candidate w rnd (k + 2 * a) margin)
         = Some (candidate w rnd (k + 2 * a) margin, k + 2 * (a + 1))"
      by (subst position_loop.simps) (simp add: f True)
    show ?thesis
    proof (intro exI[of _ a] conjI allI impI)
      show "a \<le> a" by simp
      show "a \<le> 1000" by (rule Suc.prems)
      show "position_loop w rnd margin (k + 2 * (a + 1)) a (candidate w rnd (k + 2 * a) margin)
         = Some (candidate w rnd (k + 2 * a) margin, k + 2 * (a + 1))" by (rule r)
      show "World_test_body w (candidate w rnd (k + 2 * j) margin) = Some False"
        if "a \<le> j \<and> j < a" for j using that by auto
      show "World_test_body w (candidate w rnd (k + 2 * a) margin) = Some True"
        using f True by simp
    qed
  next
    case False
    have m: "m = 1000 - (a + 1)" using Suc.hyps(2) by simp
    have le: "a + 1 \<le> 1000" using lt by simp
    from Suc.hyps(1)[OF m le] obtain n where
      n: "a + 1 \<le> n" "n \<le> 1000"
      "position_loop w rnd margin (k + 2 * (a + 1 + 1)) (a + 1)
          (candidate w rnd (k + 2 * (a + 1)) margin)
         = Some (candidate w rnd (k + 2 * n) margin, k + 2 * (n + 1))"
      "\<forall>j. a + 1 \<le> j \<and> j < n \<longrightarrow>
          World_test_body w (candidate w rnd (k + 2 * j) margin) = Some False"
      "n < 1000 \<longrightarrow> World_test_body w (candidate w rnd (k + 2 * n) margin) = Some True"
      by (elim exE conjE) (rule that; assumption)
    have k2: "k + 2 * (a + 1) + 2 = k + 2 * (a + 1 + 1)" by simp
    have step: "position_loop w rnd margin (k + 2 * (a + 1)) a (candidate w rnd (k + 2 * a) margin)
        = position_loop w rnd margin (k + 2 * (a + 1 + 1)) (a + 1)
            (candidate w rnd (k + 2 * (a + 1)) margin)"
      apply (subst position_loop.simps)
      apply (simp only: f option.case False not_False_eq_True lt simp_thms if_True
          candidate_resample k2)
      done
    show ?thesis
    proof (intro exI[of _ n] conjI allI impI)
      show "a \<le> n" using n(1) by simp
      show "n \<le> 1000" by (rule n(2))
      show "position_loop w rnd margin (k + 2 * (a + 1)) a (candidate w rnd (k + 2 * a) margin)
         = Some (candidate w rnd (k + 2 * n) margin, k + 2 * (n + 1))"
        using step n(3) by simp
      show "World_test_body w (candidate w rnd (k + 2 * j) margin) = Some False"
        if "a \<le> j \<and> j < n" for j
      proof (cases "j = a")
        case True
        then show ?thesis using f False by simp
      next
        case False
        with that have "a + 1 \<le> j \<and> j < n" by simp
        with n(4) show ?thesis by blast
      qed
      show "World_test_body w (candidate w rnd (k + 2 * n) margin) = Some True" if "n < 1000"
        using that n(5) by simp
    qed
  qed
qed

lemma World_init_island_size:
  assumes "World_init sz isls = Some w" "sz \<noteq> 0"
  shows "island_size w \<noteq> 0"
  using assms by (auto simp: World_init_def Let_def split: if_splits)

lemma candidate_fields:
  "b_x (candidate w rnd k margin) = margin + rnd k * (w_size w - margin * 2)"
  "b_y (candidate w rnd k margin) = margin + rnd (k + 1) * (w_size w - margin * 2)"
  "b_radius (candidate w rnd k margin) = margin"
  by (simp_all add: candidate_def Body_init_def World_get_random_point_def)

lemma random_point_in_range:
  assumes "0 \<le> (u::real)" "u < 1" "margin * 2 \<le> (sz::real)"
  shows "margin \<le> margin + u * (sz - margin * 2)" "margin + u * (sz - margin * 2) \<le> sz - margin"
proof -
  have d: "0 \<le> sz - margin * 2" using assms(3) by simp
  then have "0 \<le> u * (sz - margin * 2)" using assms(1) by simp
  then show "margin \<le> margin + u * (sz - margin * 2)" by simp
  have "u * (sz - margin * 2) \<le> 1 * (sz - margin * 2)"
    using assms(2) d by (intro mult_right_mono) simp_all
  then show "margin + u * (sz - margin * 2) \<le> sz - margin" by simp
qed



end
